theory Spec2Isabelle
  imports Main
begin

section \<open>Values, errors and the persisted state\<close>

text \<open>
  JavaScript values as far as server.js handles them: request parameters, the arguments
  of \<open>logUsage\<close>, parsed JSON.
\<close>

datatype jsval =
    JUndefined
  | JNull
  | JBool bool
  | JNum int
  | JStr string
  | JArr "jsval list"
  | JObj "(string \<times> jsval) list"

text \<open>A thrown JavaScript error; the argument is its \<open>message\<close>.\<close>

datatype error =
    Error string
  | TypeError string
  | ReferenceError string
  | SyntaxError string

fun message :: "error \<Rightarrow> string" where
  "message (Error m) = m"
| "message (TypeError m) = m"
| "message (ReferenceError m) = m"
| "message (SyntaxError m) = m"

text \<open>
  An SQL timestamp, split into the calendar month it lies in (counted from some epoch)
  and its position inside that month. Timestamps are ordered by month, then position.
  \<open>date_trunc_month\<close> is \<open>DATE_TRUNC('month', _)\<close>: the first instant of the month.
\<close>

datatype timestamp = Timestamp (month_no: nat) (within_month: nat)

definition ts_le :: "timestamp \<Rightarrow> timestamp \<Rightarrow> bool" where
  "ts_le a b = (month_no a < month_no b \<or> (month_no a = month_no b \<and> within_month a \<le> within_month b))"

definition date_trunc_month :: "timestamp \<Rightarrow> timestamp" where
  "date_trunc_month t = Timestamp (month_no t) 0"

text \<open>Table \<open>users\<close>, reduced to the column the quota subsystem reads (nullable, default 'free').\<close>

record user_row =
  access_level :: "string option"

text \<open>Table \<open>usage_quotas\<close>, keyed by \<open>access_level\<close> (the primary key).\<close>

record quota_row =
  monthly_script_limit :: int
  monthly_hooks_limit :: int
  monthly_titles_limit :: int
  monthly_outline_limit :: int
  monthly_description_limit :: int
  monthly_tags_limit :: int
  monthly_thumbnail_limit :: int
  monthly_ctas_limit :: int
  features_enabled :: "string list"

text \<open>
  Table \<open>usage_logs\<close>. The columns hold what \<open>logUsage\<close> passed as query parameters;
  \<open>created_at\<close> is filled by the store (\<open>DEFAULT CURRENT_TIMESTAMP\<close>).
\<close>

record usage_log =
  user_id :: jsval
  feature_type :: jsval
  success :: jsval
  processing_time_ms :: jsval
  tokens_used :: jsval
  error_message :: jsval
  metadata :: jsval
  created_at :: timestamp

text \<open>The SQL statements that \<open>pool.query\<close> is called with.\<close>

datatype stmt =
    SelectUserAccessLevel
  | SelectUsageQuota
  | CountUsageLogs
  | InsertUsageLog
  | SelectVoicePreset
  | InitSchema

text \<open>
  The world a request runs in: the tables, which statements the store currently rejects
  (\<open>fault s = Some m\<close>: \<open>pool.query\<close> throws an error with message \<open>m\<close>), the lines written
  with \<open>console.error\<close>, and the \<open>max_tokens\<close> of every call made to the remote
  generation API.
\<close>

record world =
  users :: "int \<rightharpoonup> user_row"
  usage_quotas :: "string \<rightharpoonup> quota_row"
  usage_logs :: "usage_log list"
  voice_presets :: "string \<rightharpoonup> string"
  fault :: "stmt \<rightharpoonup> string"
  console :: "string list"
  remote_calls :: "nat list"

definition console_error :: "string \<Rightarrow> world \<Rightarrow> world" where
  "console_error line w = w\<lparr>console := console w @ [line]\<rparr>"

section \<open>Queries\<close>

text \<open>\<open>SELECT access_level FROM users WHERE id = $1\<close>\<close>

definition select_user_access_level :: "world \<Rightarrow> int \<Rightarrow> error + user_row list" where
  "select_user_access_level w userId =
     (case fault w SelectUserAccessLevel of
        Some m \<Rightarrow> Inl (Error m)
      | None \<Rightarrow> (case users w userId of None \<Rightarrow> Inr [] | Some u \<Rightarrow> Inr [u]))"

text \<open>
  \<open>SELECT * FROM usage_quotas WHERE access_level = $1\<close>. A NULL parameter matches no row.
\<close>

definition select_usage_quota :: "world \<Rightarrow> string option \<Rightarrow> error + quota_row list" where
  "select_usage_quota w accessLevel =
     (case fault w SelectUsageQuota of
        Some m \<Rightarrow> Inl (Error m)
      | None \<Rightarrow>
          (case accessLevel of
             None \<Rightarrow> Inr []
           | Some lvl \<Rightarrow> (case usage_quotas w lvl of None \<Rightarrow> Inr [] | Some q \<Rightarrow> Inr [q])))"

text \<open>
  \<open>SELECT COUNT(*) FROM usage_logs WHERE user_id = $1 AND feature_type = $2
  AND success = true AND created_at >= DATE_TRUNC('month', CURRENT_TIMESTAMP)\<close>
\<close>

definition counted :: "timestamp \<Rightarrow> int \<Rightarrow> string \<Rightarrow> usage_log \<Rightarrow> bool" where
  "counted now userId featureType r =
     (user_id r = JNum userId \<and> feature_type r = JStr featureType \<and> success r = JBool True
      \<and> ts_le (date_trunc_month now) (created_at r))"

definition count_usage_logs :: "world \<Rightarrow> timestamp \<Rightarrow> int \<Rightarrow> string \<Rightarrow> error + nat" where
  "count_usage_logs w now userId featureType =
     (case fault w CountUsageLogs of
        Some m \<Rightarrow> Inl (Error m)
      | None \<Rightarrow> Inr (length (filter (counted now userId featureType) (usage_logs w))))"

section \<open>Quota checking\<close>

text \<open>What \<open>checkQuota\<close> returns; \<open>currentUsage\<close> and \<open>limit\<close> are absent on the early returns.\<close>

record quota_check =
  allowed :: bool
  currentUsage :: "int option"
  limit :: "int option"
  reason :: "string option"

definition deny :: "string \<Rightarrow> quota_check" where
  "deny why = \<lparr>allowed = False, currentUsage = None, limit = None, reason = Some why\<rparr>"

text \<open>The \<open>switch (featureType)\<close>; \<open>None\<close> is its \<open>default\<close> branch.\<close>

definition limit_for :: "quota_row \<Rightarrow> string \<Rightarrow> int option" where
  "limit_for quotaData featureType =
     (if featureType = ''script'' then Some (monthly_script_limit quotaData)
      else if featureType = ''hooks'' then Some (monthly_hooks_limit quotaData)
      else if featureType = ''titles'' then Some (monthly_titles_limit quotaData)
      else if featureType = ''outline'' then Some (monthly_outline_limit quotaData)
      else if featureType = ''description'' then Some (monthly_description_limit quotaData)
      else if featureType = ''tags'' then Some (monthly_tags_limit quotaData)
      else if featureType = ''thumbnail'' then Some (monthly_thumbnail_limit quotaData)
      else if featureType = ''ctas'' then Some (monthly_ctas_limit quotaData)
      else None)"

text \<open>Decimal rendering of a number inside a template literal.\<close>

fun show_nat :: "nat \<Rightarrow> string" where
  "show_nat n =
     (if n < 10 then [char_of (48 + n)]
      else show_nat (n div 10) @ [char_of (48 + n mod 10)])"

declare show_nat.simps [simp del]

definition show_int :: "int \<Rightarrow> string" where
  "show_int i = (if i < 0 then CHR ''-'' # show_nat (nat (- i)) else show_nat (nat i))"

definition limit_reached :: "int \<Rightarrow> string" where
  "limit_reached lim = ''Monthly limit of '' @ show_int lim @ '' reached''"

text \<open>The body of the \<open>try\<close> block of \<open>checkQuota\<close>; \<open>Inl\<close> is an error thrown inside it.\<close>

definition checkQuota_try :: "world \<Rightarrow> timestamp \<Rightarrow> int \<Rightarrow> string \<Rightarrow> error + quota_check" where
  "checkQuota_try w now userId featureType =
     (case select_user_access_level w userId of
        Inl e \<Rightarrow> Inl e
      | Inr [] \<Rightarrow> Inr (deny ''User not found'')
      | Inr (user0 # _) \<Rightarrow>
          (case select_usage_quota w (access_level user0) of
             Inl e \<Rightarrow> Inl e
           | Inr [] \<Rightarrow> Inr (deny ''No quota found'')
           | Inr (quotaData # _) \<Rightarrow>
               if featureType \<notin> set (features_enabled quotaData)
               then Inr (deny ''Feature not available in your plan'')
               else
                 (case count_usage_logs w now userId featureType of
                    Inl e \<Rightarrow> Inl e
                  | Inr n \<Rightarrow>
                      (case limit_for quotaData featureType of
                         None \<Rightarrow> Inr (deny ''Unknown feature type'')
                       | Some lim \<Rightarrow>
                           Inr \<lparr>allowed = int n < lim,
                                currentUsage = Some (int n),
                                limit = Some lim,
                                reason = (if int n \<ge> lim then Some (limit_reached lim) else None)\<rparr>))))"

text \<open>
  \<open>checkQuota\<close>: the \<open>try\<close> block with its \<open>catch\<close>. The first component is how the
  returned promise settles (\<open>Inl\<close>: rejected with an error, \<open>Inr\<close>: resolved with a
  result), the second the world afterwards.
\<close>

definition checkQuota :: "world \<Rightarrow> timestamp \<Rightarrow> int \<Rightarrow> string \<Rightarrow> (error + quota_check) \<times> world" where
  "checkQuota w now userId featureType =
     (case checkQuota_try w now userId featureType of
        Inr r \<Rightarrow> (Inr r, w)
      | Inl e \<Rightarrow> (Inr (deny ''Quota check failed''), console_error ''Quota check error:'' w))"

section \<open>Usage logging\<close>

text \<open>
  Binding of a positional parameter: the \<open>i\<close>-th argument, or the parameter's default
  when the argument is missing or \<open>undefined\<close>. Arguments beyond the declared parameters
  are never read.
\<close>

definition param :: "jsval list \<Rightarrow> nat \<Rightarrow> jsval \<Rightarrow> jsval" where
  "param args i dflt = (if i < length args \<and> args ! i \<noteq> JUndefined then args ! i else dflt)"

text \<open>
  \<open>JSON.stringify\<close> followed by the store reading the text back as JSONB: properties
  whose value is \<open>undefined\<close> are dropped, \<open>undefined\<close> array elements become \<open>null\<close>.
\<close>

primrec json_stringify :: "jsval \<Rightarrow> jsval" where
  "json_stringify JUndefined = JUndefined"
| "json_stringify JNull = JNull"
| "json_stringify (JBool b) = JBool b"
| "json_stringify (JNum n) = JNum n"
| "json_stringify (JStr s) = JStr s"
| "json_stringify (JArr xs) =
     JArr (map (\<lambda>v. if v = JUndefined then JNull else v) (map json_stringify xs))"
| "json_stringify (JObj kvs) =
     JObj (filter (\<lambda>kv. snd kv \<noteq> JUndefined) (map (map_prod id json_stringify) kvs))"

text \<open>\<open>INSERT INTO usage_logs (...) VALUES ($1, ..., $7)\<close>\<close>

definition insert_usage_log :: "world \<Rightarrow> usage_log \<Rightarrow> error + world" where
  "insert_usage_log w row =
     (case fault w InsertUsageLog of
        Some m \<Rightarrow> Inl (Error m)
      | None \<Rightarrow> Inr (w\<lparr>usage_logs := usage_logs w @ [row]\<rparr>))"

text \<open>
  \<open>logUsage(userId, featureType, success = true, processingTime = 0, tokensUsed = 0,
  errorMessage = null, metadata = {})\<close>, called with the argument list \<open>args\<close> at store
  time \<open>now\<close>. The first component is how the returned promise settles.
\<close>

definition logUsage :: "world \<Rightarrow> timestamp \<Rightarrow> jsval list \<Rightarrow> (error + unit) \<times> world" where
  "logUsage w now args =
     (let userId = param args 0 JUndefined;
          featureType = param args 1 JUndefined;
          success = param args 2 (JBool True);
          processingTime = param args 3 (JNum 0);
          tokensUsed = param args 4 (JNum 0);
          errorMessage = param args 5 JNull;
          metadata = param args 6 (JObj [])
      in case insert_usage_log w
                \<lparr>user_id = userId, feature_type = featureType, success = success,
                 processing_time_ms = processingTime, tokens_used = tokensUsed,
                 error_message = errorMessage, metadata = json_stringify metadata,
                 created_at = now\<rparr> of
           Inr w' \<Rightarrow> (Inr (), w')
         | Inl e \<Rightarrow> (Inr (), console_error ''Usage logging error:'' w))"

section \<open>Seeding of the quota policies\<close>

definition all_features :: "string list" where
  "all_features =
     [''script'', ''hooks'', ''titles'', ''outline'', ''description'', ''tags'', ''thumbnail'', ''ctas'']"

definition seed_row :: "int \<Rightarrow> int \<Rightarrow> int \<Rightarrow> int \<Rightarrow> int \<Rightarrow> int \<Rightarrow> int \<Rightarrow> int \<Rightarrow> quota_row" where
  "seed_row s h t ol d tg th c =
     \<lparr>monthly_script_limit = s, monthly_hooks_limit = h, monthly_titles_limit = t,
      monthly_outline_limit = ol, monthly_description_limit = d, monthly_tags_limit = tg,
      monthly_thumbnail_limit = th, monthly_ctas_limit = c, features_enabled = all_features\<rparr>"

text \<open>The \<open>VALUES\<close> of the \<open>INSERT INTO usage_quotas\<close> in \<open>initDB\<close>.\<close>

definition seed_values :: "(string \<times> quota_row) list" where
  "seed_values =
     [(''free'', seed_row 5 10 20 5 5 10 10 10),
      (''premium'', seed_row 50 100 200 50 50 100 100 100),
      (''pro'', seed_row 200 400 800 200 200 400 400 400)]"

text \<open>
  One row of \<open>INSERT ... ON CONFLICT (access_level) DO UPDATE SET
  monthly_script_limit = EXCLUDED.monthly_script_limit\<close>: a new key is inserted whole, an
  existing row gets the proposed script limit and keeps every other column.
\<close>

definition upsert_quota :: "(string \<rightharpoonup> quota_row) \<Rightarrow> string \<times> quota_row \<Rightarrow> (string \<rightharpoonup> quota_row)" where
  "upsert_quota tbl kv =
     (case tbl (fst kv) of
        None \<Rightarrow> tbl(fst kv \<mapsto> snd kv)
      | Some old \<Rightarrow> tbl(fst kv \<mapsto> old\<lparr>monthly_script_limit := monthly_script_limit (snd kv)\<rparr>))"

definition seed_usage_quotas :: "(string \<rightharpoonup> quota_row) \<Rightarrow> (string \<rightharpoonup> quota_row)" where
  "seed_usage_quotas tbl = foldl upsert_quota tbl seed_values"

text \<open>
  \<open>initDB\<close>, as far as it touches \<open>usage_quotas\<close>: the schema and seed statements are one
  query; when the store rejects it the error is logged and nothing changes. (The upsert
  of \<open>voice_presets\<close> in the same query is not modelled.)
\<close>

definition initDB :: "world \<Rightarrow> world" where
  "initDB w =
     (case fault w InitSchema of
        None \<Rightarrow> w\<lparr>usage_quotas := seed_usage_quotas (usage_quotas w)\<rparr>
      | Some m \<Rightarrow> console_error ''Database initialization error:'' w)"

section \<open>Scopes, strings and the remote call\<close>

text \<open>
  A lexical scope maps the identifiers visible at a program point to their values.
  \<open>module_scope\<close> holds the bindings of the module and of Node that the handlers use
  (their values are never inspected, so each is an empty object here); none of them has
  the name of a request parameter.
\<close>

type_synonym scope = "string \<rightharpoonup> jsval"

definition module_scope :: scope where
  "module_scope =
     map_of (map (\<lambda>x. (x, JObj []))
       [''express'', ''cors'', ''bcrypt'', ''jwt'', ''Pool'', ''rateLimit'', ''path'', ''app'',
        ''PORT'', ''pool'', ''authLimiter'', ''apiLimiter'', ''generationLimiter'', ''initDB'',
        ''authenticateToken'', ''checkQuota'', ''logUsage'', ''getVoicePrompt'',
        ''getVoicePromptAdditions'', ''console'', ''process'', ''fetch'', ''JSON'', ''Date'',
        ''Math'', ''parseInt'', ''require''])"

text \<open>
  The scope of a handler's function body: the module's bindings and the parameters
  \<open>req\<close>, \<open>res\<close>. This is also what a \<open>catch\<close> block of the handler sees (besides its
  own \<open>error\<close>): a \<open>const\<close> declared inside the \<open>try\<close> block is local to that block.
\<close>

definition handler_scope :: scope where
  "handler_scope = module_scope(''req'' \<mapsto> JObj [], ''res'' \<mapsto> JObj [])"

text \<open>
  \<open>const { x1, ..., xn } = req.body\<close>: each name is bound to the body's property of that
  name, or to \<open>undefined\<close> when the body has none.
\<close>

definition property :: "(string \<rightharpoonup> jsval) \<Rightarrow> string \<Rightarrow> jsval" where
  "property obj x = (case obj x of None \<Rightarrow> JUndefined | Some v \<Rightarrow> v)"

fun destructure :: "(string \<rightharpoonup> jsval) \<Rightarrow> string list \<Rightarrow> scope \<Rightarrow> scope" where
  "destructure obj [] sc = sc"
| "destructure obj (x # xs) sc = destructure obj xs (sc(x \<mapsto> property obj x))"

text \<open>
  The object literal \<open>{ x1, ..., xn }\<close>: every identifier is looked up in the scope, left
  to right; an identifier that is not bound throws a ReferenceError.
\<close>

fun shorthand_object :: "scope \<Rightarrow> string list \<Rightarrow> error + (string \<times> jsval) list" where
  "shorthand_object sc [] = Inr []"
| "shorthand_object sc (x # xs) =
     (case sc x of
        None \<Rightarrow> Inl (ReferenceError (x @ '' is not defined''))
      | Some v \<Rightarrow>
          (case shorthand_object sc xs of
             Inl e \<Rightarrow> Inl e
           | Inr kvs \<Rightarrow> Inr ((x, v) # kvs)))"

text \<open>Whitespace (the ASCII part of what \<open>trim\<close> and \<open>\s\<close> match) and \<open>String.trim\<close>.\<close>

definition is_space :: "char \<Rightarrow> bool" where
  "is_space c = (c \<in> set [CHR '' '', CHR 0x09, CHR 0x0A, CHR 0x0B, CHR 0x0C, CHR 0x0D])"

definition trim :: "string \<Rightarrow> string" where
  "trim s = rev (dropWhile is_space (rev (dropWhile is_space s)))"

text \<open>
  \<open>s.split(/\s+/).length\<close>: one more than the number of maximal runs of whitespace in \<open>s\<close>
  (the empty string splits into one empty piece).
\<close>

fun ws_runs :: "string \<Rightarrow> nat" where
  "ws_runs [] = 0"
| "ws_runs [c] = (if is_space c then 1 else 0)"
| "ws_runs (c # d # cs) = (if is_space c \<and> \<not> is_space d then 1 else 0) + ws_runs (d # cs)"

definition split_ws_length :: "string \<Rightarrow> nat" where
  "split_ws_length s = ws_runs s + 1"

text \<open>
  \<open>s.replace(/M\n?/g, "")\<close> for a literal marker \<open>M\<close>: scanning from the left, every
  occurrence of the marker, with the newline after it if there is one, is deleted.
\<close>

definition drop_newline :: "string \<Rightarrow> string" where
  "drop_newline s = (case s of [] \<Rightarrow> [] | c # cs \<Rightarrow> if c = CHR 0x0A then cs else c # cs)"

function remove_marker :: "string \<Rightarrow> string \<Rightarrow> string" where
  "remove_marker m [] = []"
| "remove_marker m (c # cs) =
     (if m \<noteq> [] \<and> take (length m) (c # cs) = m
      then remove_marker m (drop_newline (drop (length m - 1) cs))
      else c # remove_marker m cs)"
  by pat_completeness auto
termination
proof (relation "measure (\<lambda>(m, s). length s)")
  show "wf (measure (\<lambda>(m, s). length s))" by simp
next
  fix m :: string and c :: char and cs :: string
  have "length (drop_newline (drop (length m - 1) cs)) \<le> length cs"
    by (simp add: drop_newline_def split: list.split) (metis diff_le_self length_Cons length_drop lessI less_imp_le_nat order_trans)
  then show "((m, drop_newline (drop (length m - 1) cs)), (m, c # cs)) \<in> measure (\<lambda>(m, s). length s)"
    by simp
next
  fix m :: string and c :: char and cs :: string
  show "((m, cs), (m, c # cs)) \<in> measure (\<lambda>(m, s). length s)" by simp
qed

definition fence_json :: string where
  "fence_json = replicate 3 (CHR 0x60) @ ''json''"

definition fence :: string where
  "fence = replicate 3 (CHR 0x60)"

text \<open>\<open>responseText.replace(/```json\n?/g, "").replace(/```\n?/g, "")\<close>\<close>

definition strip_fences :: "string \<Rightarrow> string" where
  "strip_fences s = remove_marker fence (remove_marker fence_json s)"

section \<open>Generation endpoints\<close>

text \<open>An authenticated request: \<open>req.user.userId\<close> and the parsed JSON body.\<close>

record request =
  userId :: int
  body :: "string \<rightharpoonup> jsval"

datatype response = Response (status: nat) (payload: jsval)

text \<open>
  What the remote generation API answers. \<open>FetchRejected\<close>: \<open>fetch\<close> itself fails.
  Otherwise the response has its \<open>ok\<close> flag, its status and a body: \<open>InvalidJson\<close> when
  \<open>response.json()\<close> rejects, \<open>NoContent\<close> when the JSON has no \<open>content[0]\<close>, and
  \<open>ContentText v\<close> when \<open>data.content[0].text\<close> evaluates to \<open>v\<close>.
\<close>

datatype api_body = InvalidJson | NoContent | ContentText jsval

datatype fetch_result = FetchRejected string | FetchResponse bool nat api_body

text \<open>
  Everything else a handler reads from outside: the store's \<open>CURRENT_TIMESTAMP\<close> at the
  quota query and at the usage insert, the two readings of \<open>Date.now()\<close>, the remote
  answer, and \<open>JSON.parse\<close>.
\<close>

record env =
  checked_at :: timestamp
  logged_at :: timestamp
  startTime :: int
  endTime :: int
  fetched :: fetch_result
  json_parse :: "string \<Rightarrow> error + jsval"

text \<open>
  The source holds the generation routes twice: in the routes file at its head, where
  \<open>logUsage\<close> is called with nine arguments, and in server.js, where it is called with
  seven.
\<close>

datatype revision = RoutesFile | ServerFile

definition log_args ::
  "revision \<Rightarrow> int \<Rightarrow> string \<Rightarrow> bool \<Rightarrow> jsval \<Rightarrow> jsval \<Rightarrow> jsval \<Rightarrow> jsval \<Rightarrow> jsval list" where
  "log_args src uid feature ok processingTime tokens errorMessage meta =
     (case src of
        ServerFile \<Rightarrow>
          [JNum uid, JStr feature, JBool ok, processingTime, tokens, errorMessage, meta]
      | RoutesFile \<Rightarrow>
          [JNum uid, JStr feature, JBool ok, processingTime, tokens, JNull, JNull, errorMessage, meta])"

text \<open>How a handler run ends: how its promise settles, the response sent (if any), the world.\<close>

record run =
  settled :: "error + unit"
  sent :: "response option"
  after :: world

definition truthy :: "jsval \<Rightarrow> bool" where
  "truthy v =
     (case v of
        JUndefined \<Rightarrow> False
      | JNull \<Rightarrow> False
      | JBool b \<Rightarrow> b
      | JNum n \<Rightarrow> n \<noteq> 0
      | JStr s \<Rightarrow> s \<noteq> []
      | JArr xs \<Rightarrow> True
      | JObj kvs \<Rightarrow> True)"

definition default_voice_prompt :: string where
  "default_voice_prompt =
     ''You are an expert YouTube content creator focused on creating viral, engaging content.''"

text \<open>
  \<open>getVoicePrompt\<close>: never throws; a store failure is logged and the default prompt
  returned. (A preset name that is not a string is taken to match no row. The prompt
  only enters the text sent to the remote API.)
\<close>

definition getVoicePrompt :: "world \<Rightarrow> jsval \<Rightarrow> string \<times> world" where
  "getVoicePrompt w voicePreset =
     (case fault w SelectVoicePreset of
        Some m \<Rightarrow> (default_voice_prompt, console_error ''Voice prompt error:'' w)
      | None \<Rightarrow>
          (case voicePreset of
             JStr name \<Rightarrow>
               (case voice_presets w name of
                  None \<Rightarrow> (default_voice_prompt, w)
                | Some system_prompt \<Rightarrow> (system_prompt, w))
           | _ \<Rightarrow> (default_voice_prompt, w)))"

text \<open>
  Composing the script prompt. The template text itself is static and left out; the one
  step that can throw is \<open>duration.split('-')\<close>, when \<open>duration\<close> is not a string.
\<close>

definition compose_script_prompt :: "scope \<Rightarrow> error + unit" where
  "compose_script_prompt sc =
     (case sc ''duration'' of
        Some (JStr d) \<Rightarrow> Inr ()
      | Some JUndefined \<Rightarrow> Inl (TypeError ''Cannot read properties of undefined'')
      | Some JNull \<Rightarrow> Inl (TypeError ''Cannot read properties of null'')
      | Some _ \<Rightarrow> Inl (TypeError ''duration.split is not a function'')
      | None \<Rightarrow> Inl (ReferenceError ''duration is not defined''))"

text \<open>\<open>fetch(...)\<close> with the given \<open>max_tokens\<close>: the call is made, then its answer read.\<close>

definition call_api :: "nat \<Rightarrow> world \<Rightarrow> world" where
  "call_api max_tokens w = w\<lparr>remote_calls := remote_calls w @ [max_tokens]\<rparr>"

text \<open>\<open>const data = await response.json(); data.content[0].text\<close>\<close>

definition content_text :: "api_body \<Rightarrow> error + jsval" where
  "content_text b =
     (case b of
        InvalidJson \<Rightarrow> Inl (SyntaxError ''Unexpected token in JSON'')
      | NoContent \<Rightarrow> Inl (TypeError ''Cannot read properties of undefined'')
      | ContentText v \<Rightarrow> Inr v)"

text \<open>A string method called on a value: only a string has it.\<close>

definition as_string :: "jsval \<Rightarrow> error + string" where
  "as_string v =
     (case v of
        JStr s \<Rightarrow> Inr s
      | JUndefined \<Rightarrow> Inl (TypeError ''Cannot read properties of undefined'')
      | JNull \<Rightarrow> Inl (TypeError ''Cannot read properties of null'')
      | _ \<Rightarrow> Inl (TypeError ''trim is not a function''))"

definition reason_value :: "quota_check \<Rightarrow> jsval" where
  "reason_value q = (case reason q of None \<Rightarrow> JNull | Some r \<Rightarrow> JStr r)"

definition entitlement_denied :: "quota_check \<Rightarrow> response" where
  "entitlement_denied q = Response 429 (JObj [(''error'', reason_value q)])"

text \<open>
  The \<open>catch (error)\<close> block that each generation handler ends with: log the error,
  build the argument list of \<open>logUsage\<close> (its last argument is an object literal over
  the names \<open>names\<close>, evaluated in the scope \<open>sc\<close> of the catch block), record the failed
  attempt, answer 500. An error thrown in the block itself rejects the handler's promise.
\<close>

definition catch_block ::
  "revision \<Rightarrow> string \<Rightarrow> string \<Rightarrow> string \<Rightarrow> scope \<Rightarrow> string list \<Rightarrow> jsval
     \<Rightarrow> env \<Rightarrow> request \<Rightarrow> error \<Rightarrow> world \<Rightarrow> run" where
  "catch_block src label feature failure sc names processingTime ev req e w =
     (let w1 = console_error label w in
      case shorthand_object sc names of
        Inl e' \<Rightarrow> \<lparr>settled = Inl e', sent = None, after = w1\<rparr>
      | Inr meta \<Rightarrow>
          (case logUsage w1 (logged_at ev)
                  (log_args src (userId req) feature False processingTime (JNum 0)
                     (JStr (message e)) (JObj meta)) of
             (Inl e', w2) \<Rightarrow> \<lparr>settled = Inl e', sent = None, after = w2\<rparr>
           | (Inr u, w2) \<Rightarrow>
               \<lparr>settled = Inr (),
                sent = Some (Response 500 (JObj [(''error'', JStr failure)])),
                after = w2\<rparr>))"

subsection \<open>POST /api/generate/script\<close>

definition script_params :: "string list" where
  "script_params =
     [''topic'', ''audience'', ''duration'', ''tone'', ''videoType'', ''keywords'',
      ''customPrompt'', ''voicePreset'']"

definition script_logged :: "string list" where
  "script_logged = [''topic'', ''audience'', ''duration'', ''tone'', ''videoType'', ''voicePreset'']"

text \<open>The \<open>try\<close> block; \<open>Inl\<close> is an error thrown in it, \<open>Inr\<close> the response it sends.\<close>

definition generate_script_try ::
  "revision \<Rightarrow> env \<Rightarrow> request \<Rightarrow> world \<Rightarrow> (error + response) \<times> world" where
  "generate_script_try src ev req w =
     (let sc = destructure (body req) script_params
                 (handler_scope(''startTime'' \<mapsto> JNum (startTime ev))) in
      case checkQuota w (checked_at ev) (userId req) ''script'' of
        (Inl e, w1) \<Rightarrow> (Inl e, w1)
      | (Inr quotaCheck, w1) \<Rightarrow>
          if \<not> allowed quotaCheck then (Inr (entitlement_denied quotaCheck), w1)
          else
            (let voicePreset = property sc ''voicePreset'';
                 (voicePrompt, w2) =
                    getVoicePrompt w1 (if truthy voicePreset then voicePreset else JStr ''default'')
             in case compose_script_prompt sc of
                  Inl e \<Rightarrow> (Inl e, w2)
                | Inr fullPrompt \<Rightarrow>
                    (let w3 = call_api 2000 w2 in
                     case fetched ev of
                       FetchRejected m \<Rightarrow> (Inl (TypeError m), w3)
                     | FetchResponse ok st b \<Rightarrow>
                         if \<not> ok then (Inl (Error (''API request failed: '' @ show_nat st)), w3)
                         else
                           (case content_text b of
                              Inl e \<Rightarrow> (Inl e, w3)
                            | Inr scriptContent \<Rightarrow>
                                (let processingTime = endTime ev - startTime ev in
                                 case as_string scriptContent of
                                   Inl e \<Rightarrow> (Inl e, w3)
                                 | Inr text \<Rightarrow>
                                     (let words = int (split_ws_length (trim text)) in
                                      case shorthand_object sc script_logged of
                                        Inl e \<Rightarrow> (Inl e, w3)
                                      | Inr meta \<Rightarrow>
                                          (case logUsage w3 (logged_at ev)
                                                  (log_args src (userId req) ''script'' True
                                                     (JNum processingTime) (JNum words) JNull (JObj meta)) of
                                             (Inl e, w4) \<Rightarrow> (Inl e, w4)
                                           | (Inr u, w4) \<Rightarrow>
                                               (Inr (Response 200
                                                  (JObj [(''script'', JStr text),
                                                         (''stats'', JObj [(''words'', JNum words),
                                                            (''processingTime'', JNum processingTime)])])),
                                                w4))))))))"

text \<open>
  The handler. (In the response, \<open>stats.estimatedDuration\<close>, a floating-point number, is
  left out.)
\<close>

definition generate_script :: "revision \<Rightarrow> env \<Rightarrow> request \<Rightarrow> world \<Rightarrow> run" where
  "generate_script src ev req w =
     (case generate_script_try src ev req w of
        (Inr resp, w') \<Rightarrow> \<lparr>settled = Inr (), sent = Some resp, after = w'\<rparr>
      | (Inl e, w') \<Rightarrow>
          catch_block src ''Script generation error:'' ''script'' ''Script generation failed''
            (handler_scope(''startTime'' \<mapsto> JNum (startTime ev), ''error'' \<mapsto> JObj [],
               ''processingTime'' \<mapsto> JNum (endTime ev - startTime ev)))
            script_logged (JNum (endTime ev - startTime ev)) ev req e w')"

subsection \<open>POST /api/generate/hooks and /api/generate/titles\<close>

text \<open>
  Reading a structured answer: \<open>data.content[0].text.trim()\<close>, the code fences removed,
  \<open>JSON.parse\<close>.
\<close>

definition parse_structured :: "env \<Rightarrow> api_body \<Rightarrow> error + jsval" where
  "parse_structured ev b =
     (case content_text b of
        Inl e \<Rightarrow> Inl e
      | Inr v \<Rightarrow>
          (case as_string v of
             Inl e \<Rightarrow> Inl e
           | Inr text \<Rightarrow> json_parse ev (strip_fences (trim text))))"

definition hooks_params :: "string list" where
  "hooks_params = [''topic'', ''audience'', ''videoType'', ''tone'', ''voicePreset'']"

definition hooks_logged :: "string list" where
  "hooks_logged = [''topic'', ''audience'', ''videoType'', ''tone'']"

definition generate_hooks_try ::
  "revision \<Rightarrow> env \<Rightarrow> request \<Rightarrow> world \<Rightarrow> (error + response) \<times> world" where
  "generate_hooks_try src ev req w =
     (let sc = destructure (body req) hooks_params handler_scope in
      case checkQuota w (checked_at ev) (userId req) ''hooks'' of
        (Inl e, w1) \<Rightarrow> (Inl e, w1)
      | (Inr quotaCheck, w1) \<Rightarrow>
          if \<not> allowed quotaCheck then (Inr (entitlement_denied quotaCheck), w1)
          else
            (let voicePreset = property sc ''voicePreset'';
                 (voicePrompt, w2) =
                    getVoicePrompt w1 (if truthy voicePreset then voicePreset else JStr ''default'');
                 w3 = call_api 1000 w2
             in case fetched ev of
                  FetchRejected m \<Rightarrow> (Inl (TypeError m), w3)
                | FetchResponse ok st b \<Rightarrow>
                    (case parse_structured ev b of
                       Inl e \<Rightarrow> (Inl e, w3)
                     | Inr hooksData \<Rightarrow>
                         (case shorthand_object sc hooks_logged of
                            Inl e \<Rightarrow> (Inl e, w3)
                          | Inr meta \<Rightarrow>
                              (case logUsage w3 (logged_at ev)
                                      (log_args src (userId req) ''hooks'' True
                                         (JNum 0) (JNum 0) JNull (JObj meta)) of
                                 (Inl e, w4) \<Rightarrow> (Inl e, w4)
                               | (Inr u, w4) \<Rightarrow>
                                   (Inr (Response 200 (JObj [(''hooks'', hooksData)])), w4))))))"

definition generate_hooks :: "revision \<Rightarrow> env \<Rightarrow> request \<Rightarrow> world \<Rightarrow> run" where
  "generate_hooks src ev req w =
     (case generate_hooks_try src ev req w of
        (Inr resp, w') \<Rightarrow> \<lparr>settled = Inr (), sent = Some resp, after = w'\<rparr>
      | (Inl e, w') \<Rightarrow>
          catch_block src ''Hooks generation error:'' ''hooks'' ''Hooks generation failed''
            (handler_scope(''error'' \<mapsto> JObj [])) hooks_logged (JNum 0) ev req e w')"

definition titles_params :: "string list" where
  "titles_params = [''topic'', ''audience'', ''videoType'']"

definition generate_titles_try ::
  "revision \<Rightarrow> env \<Rightarrow> request \<Rightarrow> world \<Rightarrow> (error + response) \<times> world" where
  "generate_titles_try src ev req w =
     (let sc = destructure (body req) titles_params handler_scope in
      case checkQuota w (checked_at ev) (userId req) ''titles'' of
        (Inl e, w1) \<Rightarrow> (Inl e, w1)
      | (Inr quotaCheck, w1) \<Rightarrow>
          if \<not> allowed quotaCheck then (Inr (entitlement_denied quotaCheck), w1)
          else
            (let w3 = call_api 800 w1
             in case fetched ev of
                  FetchRejected m \<Rightarrow> (Inl (TypeError m), w3)
                | FetchResponse ok st b \<Rightarrow>
                    (case parse_structured ev b of
                       Inl e \<Rightarrow> (Inl e, w3)
                     | Inr titlesData \<Rightarrow>
                         (case shorthand_object sc titles_params of
                            Inl e \<Rightarrow> (Inl e, w3)
                          | Inr meta \<Rightarrow>
                              (case logUsage w3 (logged_at ev)
                                      (log_args src (userId req) ''titles'' True
                                         (JNum 0) (JNum 0) JNull (JObj meta)) of
                                 (Inl e, w4) \<Rightarrow> (Inl e, w4)
                               | (Inr u, w4) \<Rightarrow>
                                   (Inr (Response 200 (JObj [(''titles'', titlesData)])), w4))))))"

definition generate_titles :: "revision \<Rightarrow> env \<Rightarrow> request \<Rightarrow> world \<Rightarrow> run" where
  "generate_titles src ev req w =
     (case generate_titles_try src ev req w of
        (Inr resp, w') \<Rightarrow> \<lparr>settled = Inr (), sent = Some resp, after = w'\<rparr>
      | (Inl e, w') \<Rightarrow>
          catch_block src ''Titles generation error:'' ''titles'' ''Titles generation failed''
            (handler_scope(''error'' \<mapsto> JObj [])) titles_params (JNum 0) ev req e w')"

section \<open>Routes and rate limiting\<close>

datatype limiter = authLimiter | apiLimiter | generationLimiter

text \<open>The options each limiter is created with.\<close>

fun windowMs :: "limiter \<Rightarrow> nat" where
  "windowMs authLimiter = 15 * 60 * 1000"
| "windowMs apiLimiter = 60 * 1000"
| "windowMs generationLimiter = 60 * 1000"

fun max_requests :: "limiter \<Rightarrow> nat" where
  "max_requests authLimiter = 5"
| "max_requests apiLimiter = 30"
| "max_requests generationLimiter = 10"

fun limiter_message :: "limiter \<Rightarrow> string" where
  "limiter_message authLimiter = ''Too many authentication attempts''"
| "limiter_message apiLimiter = ''Rate limit exceeded''"
| "limiter_message generationLimiter = ''Generation rate limit exceeded''"

datatype middleware = authenticateToken | rateLimit limiter

datatype http_method = GET | POST | DELETE

text \<open>The routes of server.js with the middleware each is registered with, in order.\<close>

definition routes :: "((http_method \<times> string) \<times> middleware list) list" where
  "routes =
     [((GET, ''/health''), []),
      ((POST, ''/api/auth/register''), [rateLimit authLimiter]),
      ((POST, ''/api/auth/login''), [rateLimit authLimiter]),
      ((GET, ''/api/user/profile''), [authenticateToken]),
      ((POST, ''/api/generate/script''),
         [authenticateToken, rateLimit apiLimiter, rateLimit generationLimiter]),
      ((POST, ''/api/generate/hooks''),
         [authenticateToken, rateLimit apiLimiter, rateLimit generationLimiter]),
      ((POST, ''/api/generate/titles''),
         [authenticateToken, rateLimit apiLimiter, rateLimit generationLimiter]),
      ((POST, ''/api/scripts/save''), [authenticateToken]),
      ((GET, ''/api/scripts/saved''), [authenticateToken]),
      ((DELETE, ''/api/scripts/:id''), [authenticateToken]),
      ((GET, ''/api/voice-presets''), [])]"

datatype credentials = NoToken | InvalidToken | ValidToken int

text \<open>
  An incoming request as the middleware sees it: route, bearer token, the client identity
  the limiters key on, and the arrival time in milliseconds.
\<close>

record http_request =
  verb :: http_method
  path :: string
  token :: credentials
  client :: string
  arrival :: nat

text \<open>Per limiter and client: the window last counted in, and the events counted in it.\<close>

type_synonym counters = "limiter \<Rightarrow> string \<Rightarrow> (nat \<times> nat) option"

text \<open>
  Modelled from the spec: the limiter middleware comes from the express-rate-limit
  package, which is not part of the source. The spec describes each scope as a
  fixed-window counter keyed by client identity: at most \<open>max\<close> events are admitted per
  identity and window, a further event in the same window is rejected with a rate-limit
  error, and the counter starts afresh in the next window.
\<close>

definition rate_limit :: "limiter \<Rightarrow> http_request \<Rightarrow> counters \<Rightarrow> response option \<times> counters" where
  "rate_limit l rq cs =
     (let win = arrival rq div windowMs l;
          n = (case cs l (client rq) of
                 None \<Rightarrow> 1
               | Some (w0, k) \<Rightarrow> if w0 = win then k + 1 else 1);
          cs' = cs(l := (cs l)(client rq \<mapsto> (win, n)))
      in (if max_requests l < n
          then Some (Response 429 (JObj [(''error'', JStr (limiter_message l))]))
          else None,
          cs'))"

definition authenticate :: "http_request \<Rightarrow> response option" where
  "authenticate rq =
     (case token rq of
        NoToken \<Rightarrow> Some (Response 401 (JObj [(''error'', JStr ''Access token required'')]))
      | InvalidToken \<Rightarrow> Some (Response 403 (JObj [(''error'', JStr ''Invalid token'')]))
      | ValidToken uid \<Rightarrow> None)"

text \<open>
  Running a route's middleware in order. \<open>Some r\<close>: a middleware answered \<open>r\<close> and the
  chain stopped; \<open>None\<close>: every middleware called \<open>next()\<close> and the handler runs.
\<close>

fun run_middleware :: "middleware list \<Rightarrow> http_request \<Rightarrow> counters \<Rightarrow> response option \<times> counters" where
  "run_middleware [] rq cs = (None, cs)"
| "run_middleware (authenticateToken # ms) rq cs =
     (case authenticate rq of
        Some r \<Rightarrow> (Some r, cs)
      | None \<Rightarrow> run_middleware ms rq cs)"
| "run_middleware (rateLimit l # ms) rq cs =
     (case rate_limit l rq cs of
        (Some r, cs') \<Rightarrow> (Some r, cs')
      | (None, cs') \<Rightarrow> run_middleware ms rq cs')"

definition admit :: "http_request \<Rightarrow> counters \<Rightarrow> response option \<times> counters" where
  "admit rq cs =
     (case map_of routes (verb rq, path rq) of
        None \<Rightarrow> (Some (Response 404 JNull), cs)
      | Some ms \<Rightarrow> run_middleware ms rq cs)"

text \<open>A sequence of requests, served one after the other: what the middleware did to each.\<close>

fun serve :: "http_request list \<Rightarrow> counters \<Rightarrow> response option list" where
  "serve [] cs = []"
| "serve (rq # rqs) cs = (case admit rq cs of (r, cs') \<Rightarrow> r # serve rqs cs')"

text \<open>
  A generation route as a whole: the middleware, and the handler only if all of it
  passed. (The handler reads \<open>req.user.userId\<close>, which \<open>authenticateToken\<close> has set; the
  last case, a handler running without it, does not arise for the routes above.)
\<close>

definition post_generate ::
  "(env \<Rightarrow> request \<Rightarrow> world \<Rightarrow> run) \<Rightarrow> env \<Rightarrow> http_request \<Rightarrow> (string \<rightharpoonup> jsval)
     \<Rightarrow> world \<Rightarrow> counters \<Rightarrow> run \<times> counters" where
  "post_generate handler ev rq params w cs =
     (case admit rq cs of
        (Some r, cs') \<Rightarrow> (\<lparr>settled = Inr (), sent = Some r, after = w\<rparr>, cs')
      | (None, cs') \<Rightarrow>
          (case token rq of
             ValidToken uid \<Rightarrow> (handler ev \<lparr>userId = uid, body = params\<rparr> w, cs')
           | _ \<Rightarrow> (\<lparr>settled = Inl (TypeError ''Cannot read properties of undefined''),
                    sent = None, after = w\<rparr>, cs')))"

section \<open>Notions of the specification\<close>

text \<open>
  The number of successful usage records of a user and feature created within the
  calendar month of \<open>now\<close>.
\<close>

definition successful_this_month :: "world \<Rightarrow> timestamp \<Rightarrow> int \<Rightarrow> string \<Rightarrow> nat" where
  "successful_this_month w now uid f =
     length (filter (\<lambda>r. user_id r = JNum uid \<and> feature_type r = JStr f \<and> success r = JBool True
                          \<and> month_no (created_at r) = month_no now) (usage_logs w))"

text \<open>No usage record is dated after \<open>now\<close>: the store stamps each record when it is inserted.\<close>

definition none_after :: "timestamp \<Rightarrow> world \<Rightarrow> bool" where
  "none_after now w = list_all (\<lambda>r. ts_le (created_at r) now) (usage_logs w)"

text \<open>
  Reading a decimal numeral: the number that a string of digits, with an optional
  leading minus sign, denotes.
\<close>

definition is_digit :: "char \<Rightarrow> bool" where
  "is_digit c = (48 \<le> (of_char c :: nat) \<and> (of_char c :: nat) \<le> 57)"

definition decimal_nat :: "string \<Rightarrow> nat option" where
  "decimal_nat s =
     (if s \<noteq> [] \<and> list_all is_digit s
      then Some (foldl (\<lambda>a c. 10 * a + (of_char c - 48)) 0 s)
      else None)"

definition decimal_value :: "string \<Rightarrow> int option" where
  "decimal_value s =
     (case s of
        [] \<Rightarrow> None
      | c # cs \<Rightarrow>
          if c = CHR ''-'' then map_option (\<lambda>n. - int n) (decimal_nat cs)
          else map_option int (decimal_nat s))"

section \<open>Example states\<close>

definition script_success :: "int \<Rightarrow> timestamp \<Rightarrow> usage_log" where
  "script_success uid t =
     \<lparr>user_id = JNum uid, feature_type = JStr ''script'', success = JBool True,
      processing_time_ms = JNum 1200, tokens_used = JNum 750, error_message = JNull,
      metadata = JObj [(''topic'', JStr ''sourdough'')], created_at = t\<rparr>"

definition script_failure :: "int \<Rightarrow> timestamp \<Rightarrow> usage_log" where
  "script_failure uid t =
     \<lparr>user_id = JNum uid, feature_type = JStr ''script'', success = JBool False,
      processing_time_ms = JNum 300, tokens_used = JNum 0,
      error_message = JStr ''API request failed: 529'',
      metadata = JObj [(''topic'', JStr ''sourdough'')], created_at = t\<rparr>"

text \<open>
  Three users: 1 on the seeded tier "free", 2 on a tier without policy row, 3 on a tier
  "basic" whose only enabled feature is the script.
\<close>

definition example_world :: "usage_log list \<Rightarrow> world" where
  "example_world logs =
     \<lparr>users = [1 \<mapsto> \<lparr>access_level = Some ''free''\<rparr>,
               2 \<mapsto> \<lparr>access_level = Some ''trial''\<rparr>,
               3 \<mapsto> \<lparr>access_level = Some ''basic''\<rparr>],
      usage_quotas = [''free'' \<mapsto> seed_row 5 10 20 5 5 10 10 10,
                      ''basic'' \<mapsto> (seed_row 5 10 20 5 5 10 10 10)\<lparr>features_enabled := [''script'']\<rparr>],
      usage_logs = logs,
      voice_presets = Map.empty,
      fault = Map.empty,
      console = [],
      remote_calls = []\<rparr>"

text \<open>
  User 1 in month 3 with five successful script generations, one failed one, one from
  the month before, and one of another user.
\<close>

definition five_used :: world where
  "five_used =
     example_world
       [script_success 1 (Timestamp 2 900), script_success 1 (Timestamp 3 2),
        script_success 1 (Timestamp 3 5), script_failure 1 (Timestamp 3 8),
        script_success 1 (Timestamp 3 13), script_success 1 (Timestamp 3 21),
        script_success 2 (Timestamp 3 30), script_success 1 (Timestamp 3 34)]"

text \<open>
  User 7 on a tier whose eight limits all differ, in month 3 with two successful hooks
  generations and one successful script generation.
\<close>

definition capped_world :: world where
  "capped_world =
     \<lparr>users = [7 \<mapsto> \<lparr>access_level = Some ''capped''\<rparr>],
      usage_quotas = [''capped'' \<mapsto> seed_row 11 2 13 14 15 16 17 18],
      usage_logs = [(script_success 7 (Timestamp 3 4))\<lparr>feature_type := JStr ''hooks''\<rparr>,
                    script_success 7 (Timestamp 3 6),
                    (script_success 7 (Timestamp 3 9))\<lparr>feature_type := JStr ''hooks''\<rparr>],
      voice_presets = Map.empty,
      fault = Map.empty,
      console = [],
      remote_calls = []\<rparr>"

text \<open>
  A stand-in for \<open>JSON.parse\<close> that agrees with it on the texts of the examples: the
  array \<open>[1, 2]\<close> (surrounding whitespace ignored) parses, the prose does not.
\<close>

definition example_parse :: "string \<Rightarrow> error + jsval" where
  "example_parse s =
     (if trim s = ''[1, 2]'' then Inr (JArr [JNum 1, JNum 2])
      else Inl (SyntaxError ''Unexpected token in JSON at position 0''))"

definition example_env :: "fetch_result \<Rightarrow> env" where
  "example_env answer =
     \<lparr>checked_at = Timestamp 3 50, logged_at = Timestamp 3 51, startTime = 1000, endTime = 1500,
      fetched = answer, json_parse = example_parse\<rparr>"

definition example_request :: request where
  "example_request =
     \<lparr>userId = 1,
      body = [''topic'' \<mapsto> JStr ''sourdough'', ''audience'' \<mapsto> JStr ''beginners'',
              ''duration'' \<mapsto> JStr ''5-7'', ''tone'' \<mapsto> JStr ''casual'',
              ''videoType'' \<mapsto> JStr ''tutorial'', ''keywords'' \<mapsto> JStr ''bread'',
              ''voicePreset'' \<mapsto> JStr ''conversational'']\<rparr>"

definition script_text :: fetch_result where
  "script_text = FetchResponse True 200 (ContentText (JStr ''Bread is alive.''))"

definition api_overloaded :: fetch_result where
  "api_overloaded = FetchResponse False 529 InvalidJson"

definition fenced_text :: string where
  "fenced_text = fence_json @ [CHR 0x0A] @ ''[1, 2]'' @ [CHR 0x0A] @ fence"

definition fenced_array :: fetch_result where
  "fenced_array = FetchResponse True 200 (ContentText (JStr fenced_text))"

definition prose :: fetch_result where
  "prose = FetchResponse True 200 (ContentText (JStr ''Here are your hooks''))"

text \<open>
  What a handler run looks like when it stopped at a quota denial with reason \<open>why\<close>:
  the promise resolved, a 429 response whose \<open>error\<close> is that reason, and neither the
  usage log nor the list of remote calls changed.
\<close>

definition stopped_at_denial :: "string \<Rightarrow> world \<Rightarrow> run \<Rightarrow> bool" where
  "stopped_at_denial why w r =
     (settled r = Inr ()
      \<and> sent r = Some (Response 429 (JObj [(''error'', JStr why)]))
      \<and> usage_logs (after r) = usage_logs w
      \<and> remote_calls (after r) = remote_calls w)"

text \<open>A policy table an operator has tuned: a raised script limit for "free", a tier of its own.\<close>

definition tuned_quotas :: "string \<rightharpoonup> quota_row" where
  "tuned_quotas =
     [''free'' \<mapsto> seed_row 100 10 20 5 5 10 10 10,
      ''staff'' \<mapsto> seed_row 1000 1000 1000 1000 1000 1000 1000 1000]"

text \<open>Requests of one authenticated client, one per second.\<close>

definition save_request :: "nat \<Rightarrow> http_request" where
  "save_request i =
     \<lparr>verb = POST, path = ''/api/scripts/save'', token = ValidToken 1,
      client = ''203.0.113.7'', arrival = 1000 * i\<rparr>"

definition script_post :: "nat \<Rightarrow> http_request" where
  "script_post i =
     \<lparr>verb = POST, path = ''/api/generate/script'', token = ValidToken 1,
      client = ''203.0.113.7'', arrival = 1000 * i\<rparr>"

definition no_counts :: counters where
  "no_counts = (\<lambda>l c. None)"

section \<open>The quota evaluator\<close>

lemmas query_defs = select_user_access_level_def select_usage_quota_def count_usage_logs_def

lemmas example_defs = example_world_def script_success_def script_failure_def seed_row_def
  all_features_def

lemmas checkQuota_defs = checkQuota_def checkQuota_try_def query_defs counted_def ts_le_def
  date_trunc_month_def limit_for_def deny_def console_error_def

lemma checkQuota_resolves: "\<exists>r. fst (checkQuota w now uid f) = Inr r"
  by (simp add: checkQuota_def split: sum.split)

lemma fst_checkQuota:
  "fst (checkQuota w now uid f) =
     Inr (case checkQuota_try w now uid f of Inr r \<Rightarrow> r | Inl e \<Rightarrow> deny ''Quota check failed'')"
  by (simp add: checkQuota_def split: sum.split)

lemma limit_reached_nonempty: "limit_reached lim \<noteq> []"
  by (simp add: limit_reached_def)

lemma limit_reached_not_failure: "limit_reached lim \<noteq> ''Quota check failed''"
  by (simp add: limit_reached_def)

lemma limit_reached_5: "limit_reached 5 = ''Monthly limit of 5 reached''"
  by code_simp

text \<open>Every way the \<open>try\<close> block of \<open>checkQuota\<close> can return.\<close>

lemma checkQuota_try_cases:
  assumes "checkQuota_try w now uid f = Inr r"
  shows "r = deny ''User not found'' \<or> r = deny ''No quota found''
       \<or> r = deny ''Feature not available in your plan'' \<or> r = deny ''Unknown feature type''
       \<or> (\<exists>n lim. r = \<lparr>allowed = int n < lim, currentUsage = Some (int n), limit = Some lim,
                         reason = (if int n \<ge> lim then Some (limit_reached lim) else None)\<rparr>)"
  using assms
  by (auto simp: checkQuota_try_def split: sum.splits list.splits if_splits option.splits)

text \<open>
  For a record that is not dated after \<open>now\<close>, the query's condition
  \<open>created_at >= DATE_TRUNC('month', now)\<close> says that it lies in the month of \<open>now\<close>.
\<close>

lemma counted_this_month:
  assumes "ts_le (created_at r) now"
  shows "counted now uid f r =
     (user_id r = JNum uid \<and> feature_type r = JStr f \<and> success r = JBool True
        \<and> month_no (created_at r) = month_no now)"
  using assms by (auto simp: counted_def ts_le_def date_trunc_month_def)

lemma count_this_month:
  assumes "none_after now w"
  shows "length (filter (counted now uid f) (usage_logs w)) = successful_this_month w now uid f"
proof -
  have "filter (counted now uid f) (usage_logs w) =
        filter (\<lambda>r. user_id r = JNum uid \<and> feature_type r = JStr f \<and> success r = JBool True
                          \<and> month_no (created_at r) = month_no now) (usage_logs w)"
    using assms by (intro filter_cong refl) (simp add: none_after_def list_all_iff counted_this_month)
  then show ?thesis by (simp add: successful_this_month_def)
qed

text \<open>
  The store keeps that property: a record inserted at \<open>now\<close> is not dated after \<open>now\<close>,
  and what holds at one time holds at every later one.
\<close>

lemma logUsage_keeps_none_after:
  assumes "none_after now w"
  shows "none_after now (snd (logUsage w now args))"
  using assms
  by (simp add: logUsage_def insert_usage_log_def Let_def none_after_def console_error_def
        ts_le_def split: option.split)

lemma none_after_later:
  assumes "none_after t w" and "ts_le t t'"
  shows "none_after t' w"
  using assms by (auto simp: none_after_def list_all_iff ts_le_def)

text \<open>A failed attempt, once logged, does not change the count.\<close>

lemma failed_attempt_not_counted:
  assumes "success r \<noteq> JBool True"
  shows "successful_this_month (w\<lparr>usage_logs := usage_logs w @ [r]\<rparr>) now uid f
           = successful_this_month w now uid f"
  using assms by (simp add: successful_this_month_def)

lemma five_used_denied:
  "checkQuota five_used (Timestamp 3 50) 1 ''script'' =
     (Inr \<lparr>allowed = False, currentUsage = Some 5, limit = Some 5,
           reason = Some (limit_reached 5)\<rparr>, five_used)"
  by (simp add: five_used_def example_defs checkQuota_defs)

text \<open>The decimal rendering of a number reads back as that number.\<close>

lemma digit_char: "n < 10 \<Longrightarrow> is_digit (char_of (48 + n)) \<and> (of_char (char_of (48 + n)) :: nat) = 48 + n"
  by (simp add: is_digit_def)

lemma show_nat_digits: "show_nat n \<noteq> [] \<and> list_all is_digit (show_nat n)"
proof (induction n rule: show_nat.induct)
  case (1 n)
  show ?case
  proof (cases "n < 10")
    case True
    then show ?thesis by (simp add: show_nat.simps [of n] digit_char)
  next
    case False
    with 1 show ?thesis by (simp add: show_nat.simps [of n] digit_char)
  qed
qed

lemma show_nat_value: "foldl (\<lambda>a c. 10 * a + (of_char c - 48)) 0 (show_nat n) = n"
proof (induction n rule: show_nat.induct)
  case (1 n)
  show ?case
  proof (cases "n < 10")
    case True
    then show ?thesis by (simp add: show_nat.simps [of n] digit_char)
  next
    case False
    with 1 show ?thesis by (simp add: show_nat.simps [of n] digit_char)
  qed
qed

lemma decimal_nat_show: "decimal_nat (show_nat n) = Some n"
  by (simp add: decimal_nat_def show_nat_digits show_nat_value)

lemma show_nat_no_minus: "hd (show_nat n) \<noteq> CHR ''-''"
proof -
  have "is_digit (hd (show_nat n))"
    using show_nat_digits [of n] by (cases "show_nat n") simp_all
  then show ?thesis by (auto simp: is_digit_def)
qed

lemma decimal_value_show: "decimal_value (show_int i) = Some i"
proof (cases "i < 0")
  case True
  then show ?thesis by (simp add: decimal_value_def show_int_def decimal_nat_show)
next
  case False
  obtain c cs where s: "show_nat (nat i) = c # cs"
    using show_nat_digits [of "nat i"] by (cases "show_nat (nat i)") auto
  with show_nat_no_minus [of "nat i"] have "c \<noteq> CHR ''-''" by simp
  with False s decimal_nat_show [of "nat i"] show ?thesis
    by (simp add: decimal_value_def show_int_def)
qed

text \<open>
  C1. With the store answering, a user on a tier that has a policy row \<open>q\<close>, a feature
  in the row's enabled set, \<open>lim\<close> the row's limit column of that feature, and no usage
  record dated in the future: \<open>checkQuota\<close> leaves the world as it is and allows the
  request exactly when the number of the user's successful records for the feature in
  the current calendar month is below \<open>lim\<close>. Failed attempts are not part of that
  number. A denial carries the reason "Monthly limit of \<open>lim\<close> reached", with \<open>lim\<close> in
  decimal.
\<close>

theorem quota_allowed_iff_under_limit:
  assumes "fault w SelectUserAccessLevel = None" and "fault w SelectUsageQuota = None"
    and "fault w CountUsageLogs = None"
    and "users w uid = Some u" and "access_level u = Some tier"
    and "usage_quotas w tier = Some q"
    and "f \<in> set (features_enabled q)"
    and "(f, lim) \<in> {(''script'', monthly_script_limit q), (''hooks'', monthly_hooks_limit q),
                     (''titles'', monthly_titles_limit q), (''outline'', monthly_outline_limit q),
                     (''description'', monthly_description_limit q),
                     (''tags'', monthly_tags_limit q), (''thumbnail'', monthly_thumbnail_limit q),
                     (''ctas'', monthly_ctas_limit q)}"
    and "none_after now w"
  shows "\<exists>r. checkQuota w now uid f = (Inr r, w)
           \<and> allowed r = (int (successful_this_month w now uid f) < lim)
           \<and> currentUsage r = Some (int (successful_this_month w now uid f))
           \<and> limit r = Some lim
           \<and> reason r = (if allowed r then None
                          else Some (''Monthly limit of '' @ show_int lim @ '' reached''))
           \<and> decimal_value (show_int lim) = Some lim"
proof -
  from assms(8) have l: "limit_for q f = Some lim"
    by (auto simp: limit_for_def)
  have "checkQuota_try w now uid f =
          Inr \<lparr>allowed = int (successful_this_month w now uid f) < lim,
               currentUsage = Some (int (successful_this_month w now uid f)),
               limit = Some lim,
               reason = (if int (successful_this_month w now uid f) \<ge> lim
                         then Some (limit_reached lim) else None)\<rparr>"
    using assms(1-7) l count_this_month [OF assms(9), of uid f]
    by (simp add: checkQuota_try_def query_defs)
  then show ?thesis
    by (auto simp: checkQuota_def limit_reached_def decimal_value_show)
qed

theorem quota_allowed_iff_under_limit_witness:
  "(users five_used 1 = Some \<lparr>access_level = Some ''free''\<rparr>
    \<and> usage_quotas five_used ''free'' = Some (seed_row 5 10 20 5 5 10 10 10)
    \<and> none_after (Timestamp 3 50) five_used
    \<and> successful_this_month five_used (Timestamp 3 50) 1 ''script'' = 5
    \<and> checkQuota five_used (Timestamp 3 50) 1 ''script'' =
         (Inr \<lparr>allowed = False, currentUsage = Some 5, limit = Some 5,
               reason = Some ''Monthly limit of 5 reached''\<rparr>, five_used))
   \<and> (users capped_world 7 = Some \<lparr>access_level = Some ''capped''\<rparr>
    \<and> usage_quotas capped_world ''capped'' = Some (seed_row 11 2 13 14 15 16 17 18)
    \<and> none_after (Timestamp 3 50) capped_world
    \<and> successful_this_month capped_world (Timestamp 3 50) 7 ''hooks'' = 2
    \<and> checkQuota capped_world (Timestamp 3 50) 7 ''hooks'' =
         (Inr \<lparr>allowed = False, currentUsage = Some 2, limit = Some 2,
               reason = Some ''Monthly limit of 2 reached''\<rparr>, capped_world)
    \<and> successful_this_month capped_world (Timestamp 3 50) 7 ''script'' = 1
    \<and> checkQuota capped_world (Timestamp 3 50) 7 ''script'' =
         (Inr \<lparr>allowed = True, currentUsage = Some 1, limit = Some 11, reason = None\<rparr>,
          capped_world))"
proof -
  have h: "fault five_used SelectUserAccessLevel = None" "fault five_used SelectUsageQuota = None"
    "fault five_used CountUsageLogs = None"
    "users five_used 1 = Some \<lparr>access_level = Some ''free''\<rparr>"
    "access_level \<lparr>access_level = Some ''free''\<rparr> = Some ''free''"
    "usage_quotas five_used ''free'' = Some (seed_row 5 10 20 5 5 10 10 10)"
    "''script'' \<in> set (features_enabled (seed_row 5 10 20 5 5 10 10 10))"
    by (simp_all add: five_used_def example_world_def seed_row_def all_features_def)
  have n: "none_after (Timestamp 3 50) five_used"
    by (simp add: five_used_def example_defs none_after_def ts_le_def)
  have c: "successful_this_month five_used (Timestamp 3 50) 1 ''script'' = 5"
    by (simp add: five_used_def example_defs successful_this_month_def)
  have s5: "show_int 5 = ''5''" by code_simp
  have a: "checkQuota five_used (Timestamp 3 50) 1 ''script'' =
        (Inr \<lparr>allowed = False, currentUsage = Some 5, limit = Some 5,
              reason = Some ''Monthly limit of 5 reached''\<rparr>, five_used)"
    using quota_allowed_iff_under_limit [OF h _ n, of 5] c s5
    by (auto simp: seed_row_def)
  have k: "fault capped_world SelectUserAccessLevel = None"
    "fault capped_world SelectUsageQuota = None"
    "fault capped_world CountUsageLogs = None"
    "users capped_world 7 = Some \<lparr>access_level = Some ''capped''\<rparr>"
    "access_level \<lparr>access_level = Some ''capped''\<rparr> = Some ''capped''"
    "usage_quotas capped_world ''capped'' = Some (seed_row 11 2 13 14 15 16 17 18)"
    by (simp_all add: capped_world_def)
  have e: "''hooks'' \<in> set (features_enabled (seed_row 11 2 13 14 15 16 17 18))"
    "''script'' \<in> set (features_enabled (seed_row 11 2 13 14 15 16 17 18))"
    by (simp_all add: seed_row_def all_features_def)
  have m: "none_after (Timestamp 3 50) capped_world"
    by (simp add: capped_world_def script_success_def none_after_def ts_le_def)
  have d: "successful_this_month capped_world (Timestamp 3 50) 7 ''hooks'' = 2"
    "successful_this_month capped_world (Timestamp 3 50) 7 ''script'' = 1"
    by (simp_all add: capped_world_def script_success_def successful_this_month_def)
  have s2: "show_int 2 = ''2''" by code_simp
  have b: "checkQuota capped_world (Timestamp 3 50) 7 ''hooks'' =
         (Inr \<lparr>allowed = False, currentUsage = Some 2, limit = Some 2,
               reason = Some ''Monthly limit of 2 reached''\<rparr>, capped_world)"
    using quota_allowed_iff_under_limit [OF k e(1) _ m, of 2] d s2
    by (auto simp: seed_row_def)
  have g: "checkQuota capped_world (Timestamp 3 50) 7 ''script'' =
         (Inr \<lparr>allowed = True, currentUsage = Some 1, limit = Some 11, reason = None\<rparr>,
          capped_world)"
    using quota_allowed_iff_under_limit [OF k e(2) _ m, of 11] d
    by (auto simp: seed_row_def)
  from h n c a k m d b g show ?thesis by simp
qed

text \<open>
  C2. For a user on a tier with a policy row, a feature that is not in the row's enabled
  set is denied with the reason "Feature not available in your plan", whatever the usage
  log holds and whether or not the counting query would succeed: the usage count is not
  consulted.
\<close>

theorem feature_not_enabled_denied:
  assumes "fault w SelectUserAccessLevel = None" and "fault w SelectUsageQuota = None"
    and "users w uid = Some u" and "access_level u = Some tier"
    and "usage_quotas w tier = Some q"
    and "f \<notin> set (features_enabled q)"
  shows "fst (checkQuota (w\<lparr>usage_logs := logs, fault := (fault w)(CountUsageLogs := x)\<rparr>) now uid f)
           = Inr (deny ''Feature not available in your plan'')"
  using assms by (simp add: checkQuota_def checkQuota_try_def query_defs)

theorem feature_not_enabled_denied_witness:
  "fault (example_world []) SelectUserAccessLevel = None
   \<and> fault (example_world []) SelectUsageQuota = None
   \<and> users (example_world []) 3 = Some \<lparr>access_level = Some ''basic''\<rparr>
   \<and> usage_quotas (example_world []) ''basic''
        = Some ((seed_row 5 10 20 5 5 10 10 10)\<lparr>features_enabled := [''script'']\<rparr>)
   \<and> ''hooks'' \<notin> set (features_enabled ((seed_row 5 10 20 5 5 10 10 10)\<lparr>features_enabled := [''script'']\<rparr>))
   \<and> fst (checkQuota ((example_world [])\<lparr>usage_logs := [script_success 3 (Timestamp 3 2)],
              fault := (fault (example_world []))(CountUsageLogs := Some ''connection refused'')\<rparr>)
            (Timestamp 3 50) 3 ''hooks'')
        = Inr \<lparr>allowed = False, currentUsage = None, limit = None,
               reason = Some ''Feature not available in your plan''\<rparr>"
proof -
  have h: "fault (example_world []) SelectUserAccessLevel = None"
    "fault (example_world []) SelectUsageQuota = None"
    "users (example_world []) 3 = Some \<lparr>access_level = Some ''basic''\<rparr>"
    "access_level \<lparr>access_level = Some ''basic''\<rparr> = Some ''basic''"
    "usage_quotas (example_world []) ''basic''
        = Some ((seed_row 5 10 20 5 5 10 10 10)\<lparr>features_enabled := [''script'']\<rparr>)"
    "''hooks'' \<notin> set (features_enabled ((seed_row 5 10 20 5 5 10 10 10)\<lparr>features_enabled := [''script'']\<rparr>))"
    by (simp_all add: example_world_def)
  from feature_not_enabled_denied [OF h] h show ?thesis
    by (simp add: deny_def)
qed

text \<open>
  C3. \<open>checkQuota\<close> fails closed. An unknown user is denied with "User not found"; a
  user whose tier is unset or has no policy row is denied with "No quota found"; when a
  query of the store fails, or anything else is thrown inside the \<open>try\<close> block, the
  request is denied with "Quota check failed", a reason that no return of the \<open>try\<close>
  block carries. The promise of \<open>checkQuota\<close> always resolves: no error reaches the caller.
\<close>

theorem checkQuota_fails_closed:
  "(fault w SelectUserAccessLevel = None \<and> users w uid = None
      \<longrightarrow> fst (checkQuota w now uid f) = Inr (deny ''User not found''))
   \<and> (fault w SelectUserAccessLevel = None \<and> fault w SelectUsageQuota = None
        \<and> users w uid = Some u
        \<and> (case access_level u of None \<Rightarrow> True | Some tier \<Rightarrow> usage_quotas w tier = None)
      \<longrightarrow> fst (checkQuota w now uid f) = Inr (deny ''No quota found''))
   \<and> (fault w SelectUserAccessLevel = Some m
      \<longrightarrow> fst (checkQuota w now uid f) = Inr (deny ''Quota check failed''))
   \<and> (fault w SelectUserAccessLevel = None \<and> users w uid = Some u
        \<and> fault w SelectUsageQuota = Some m
      \<longrightarrow> fst (checkQuota w now uid f) = Inr (deny ''Quota check failed''))
   \<and> (fault w SelectUserAccessLevel = None \<and> fault w SelectUsageQuota = None
        \<and> users w uid = Some u \<and> access_level u = Some tier \<and> usage_quotas w tier = Some q
        \<and> f \<in> set (features_enabled q) \<and> fault w CountUsageLogs = Some m
      \<longrightarrow> fst (checkQuota w now uid f) = Inr (deny ''Quota check failed''))
   \<and> (checkQuota_try w now uid f = Inl e
      \<longrightarrow> fst (checkQuota w now uid f) = Inr (deny ''Quota check failed''))
   \<and> (checkQuota_try w now uid f = Inr r \<longrightarrow> reason r \<noteq> Some ''Quota check failed'')
   \<and> (\<exists>r. fst (checkQuota w now uid f) = Inr r)"
proof (intro conjI impI)
  assume "fault w SelectUserAccessLevel = None \<and> users w uid = None"
  then show "fst (checkQuota w now uid f) = Inr (deny ''User not found'')"
    by (simp add: checkQuota_def checkQuota_try_def query_defs)
next
  assume "fault w SelectUserAccessLevel = None \<and> fault w SelectUsageQuota = None
        \<and> users w uid = Some u
        \<and> (case access_level u of None \<Rightarrow> True | Some tier \<Rightarrow> usage_quotas w tier = None)"
  then show "fst (checkQuota w now uid f) = Inr (deny ''No quota found'')"
    by (cases "access_level u") (simp_all add: checkQuota_def checkQuota_try_def query_defs)
next
  assume "fault w SelectUserAccessLevel = Some m"
  then show "fst (checkQuota w now uid f) = Inr (deny ''Quota check failed'')"
    by (simp add: checkQuota_def checkQuota_try_def query_defs)
next
  assume "fault w SelectUserAccessLevel = None \<and> users w uid = Some u
        \<and> fault w SelectUsageQuota = Some m"
  then show "fst (checkQuota w now uid f) = Inr (deny ''Quota check failed'')"
    by (simp add: checkQuota_def checkQuota_try_def query_defs)
next
  assume "fault w SelectUserAccessLevel = None \<and> fault w SelectUsageQuota = None
        \<and> users w uid = Some u \<and> access_level u = Some tier \<and> usage_quotas w tier = Some q
        \<and> f \<in> set (features_enabled q) \<and> fault w CountUsageLogs = Some m"
  then show "fst (checkQuota w now uid f) = Inr (deny ''Quota check failed'')"
    by (simp add: checkQuota_def checkQuota_try_def query_defs)
next
  assume "checkQuota_try w now uid f = Inl e"
  then show "fst (checkQuota w now uid f) = Inr (deny ''Quota check failed'')"
    by (simp add: fst_checkQuota)
next
  assume "checkQuota_try w now uid f = Inr r"
  from checkQuota_try_cases [OF this]
  show "reason r \<noteq> Some ''Quota check failed''"
    by (auto simp: deny_def limit_reached_not_failure split: if_splits)
next
  show "\<exists>r. fst (checkQuota w now uid f) = Inr r"
    by (rule checkQuota_resolves)
qed

theorem checkQuota_fails_closed_witness:
  "users (example_world []) 9 = None
   \<and> fst (checkQuota (example_world []) (Timestamp 3 50) 9 ''script'')
        = Inr \<lparr>allowed = False, currentUsage = None, limit = None, reason = Some ''User not found''\<rparr>
   \<and> users (example_world []) 2 = Some \<lparr>access_level = Some ''trial''\<rparr>
   \<and> usage_quotas (example_world []) ''trial'' = None
   \<and> fst (checkQuota (example_world []) (Timestamp 3 50) 2 ''script'')
        = Inr \<lparr>allowed = False, currentUsage = None, limit = None, reason = Some ''No quota found''\<rparr>
   \<and> fault ((example_world [])\<lparr>fault := [SelectUserAccessLevel \<mapsto> ''connection refused'']\<rparr>)
        SelectUserAccessLevel = Some ''connection refused''
   \<and> fst (checkQuota ((example_world [])\<lparr>fault := [SelectUserAccessLevel \<mapsto> ''connection refused'']\<rparr>)
            (Timestamp 3 50) 1 ''script'')
        = Inr \<lparr>allowed = False, currentUsage = None, limit = None, reason = Some ''Quota check failed''\<rparr>"
  using checkQuota_fails_closed [where w = "example_world []" and uid = 9 and now = "Timestamp 3 50"
      and f = "''script''"]
    checkQuota_fails_closed [where w = "example_world []" and uid = 2 and now = "Timestamp 3 50"
      and f = "''script''" and u = "\<lparr>access_level = Some ''trial''\<rparr>"]
    checkQuota_fails_closed [where uid = 1 and now = "Timestamp 3 50" and f = "''script''"
      and w = "(example_world [])\<lparr>fault := [SelectUserAccessLevel \<mapsto> ''connection refused'']\<rparr>"
      and m = "''connection refused''"]
  by (simp add: example_world_def deny_def)

text \<open>
  C10. Whatever the input, the result of \<open>checkQuota\<close> has a null reason exactly when it
  allows the request, and a denial carries a reason that is a non-empty string.
\<close>

theorem checkQuota_reason_invariant:
  "\<exists>r. fst (checkQuota w now uid f) = Inr r
     \<and> (reason r = None) = allowed r
     \<and> (\<not> allowed r \<longrightarrow> (\<exists>s. reason r = Some s \<and> s \<noteq> []))"
proof (cases "checkQuota_try w now uid f")
  case (Inl e)
  then show ?thesis by (simp add: fst_checkQuota deny_def)
next
  case (Inr r)
  from checkQuota_try_cases [OF Inr] show ?thesis
    by (auto simp: fst_checkQuota Inr deny_def limit_reached_nonempty split: if_splits)
qed

theorem checkQuota_reason_invariant_witness:
  "\<exists>r. fst (checkQuota five_used (Timestamp 3 50) 1 ''script'') = Inr r
     \<and> \<not> allowed r \<and> reason r = Some ''Monthly limit of 5 reached''
     \<and> ''Monthly limit of 5 reached'' \<noteq> []"
  using checkQuota_reason_invariant [of five_used "Timestamp 3 50" 1 "''script''"]
    five_used_denied limit_reached_5
  by auto

section \<open>The generation endpoints\<close>

lemma logUsage_resolves: "fst (logUsage w now args) = Inr ()"
  by (simp add: logUsage_def insert_usage_log_def Let_def split: option.split)

lemma logUsage_case:
  "(case logUsage w now args of (Inl e, w4) \<Rightarrow> A e w4 | (Inr u, w4) \<Rightarrow> B u w4)
     = B () (snd (logUsage w now args))"
  by (simp add: logUsage_def insert_usage_log_def Let_def split: option.split)

lemma catch_script:
  "shorthand_object (handler_scope(''startTime'' \<mapsto> a, ''error'' \<mapsto> b, ''processingTime'' \<mapsto> c))
     script_logged = Inl (ReferenceError ''topic is not defined'')"
  by (simp add: handler_scope_def module_scope_def script_logged_def)

lemma catch_hooks:
  "shorthand_object (handler_scope(''error'' \<mapsto> b)) hooks_logged
     = Inl (ReferenceError ''topic is not defined'')"
  by (simp add: handler_scope_def module_scope_def hooks_logged_def)

lemma catch_titles:
  "shorthand_object (handler_scope(''error'' \<mapsto> b)) titles_params
     = Inl (ReferenceError ''topic is not defined'')"
  by (simp add: handler_scope_def module_scope_def titles_params_def)

lemma checkQuota_world:
  "snd (checkQuota w now uid f) = w \<or> snd (checkQuota w now uid f) = console_error ''Quota check error:'' w"
  by (simp add: checkQuota_def split: sum.split)

lemma script_try_fst_cong:
  assumes "fst (checkQuota w (checked_at ev) (userId req) ''script'')
         = fst (checkQuota w' (checked_at ev) (userId req) ''script'')"
  shows "fst (generate_script_try src ev req w) = fst (generate_script_try src ev req w')"
proof -
  obtain r w1 where a: "checkQuota w (checked_at ev) (userId req) ''script'' = (r, w1)"
    by (cases "checkQuota w (checked_at ev) (userId req) ''script''")
  obtain r' w1' where b: "checkQuota w' (checked_at ev) (userId req) ''script'' = (r', w1')"
    by (cases "checkQuota w' (checked_at ev) (userId req) ''script''")
  from assms a b have r: "r' = r" by simp
  show ?thesis
    unfolding generate_script_try_def Let_def a b r
    by (simp add: logUsage_resolves split_beta split: sum.split fetch_result.split)
qed


lemma checkQuota_keeps:
  "usage_logs (snd (checkQuota w now uid f)) = usage_logs w"
  "remote_calls (snd (checkQuota w now uid f)) = remote_calls w"
  "fault (snd (checkQuota w now uid f)) = fault w"
  by (simp_all add: checkQuota_def console_error_def split: sum.split)

lemma denied_has_reason:
  assumes "fst (checkQuota w now uid f) = Inr qc" and "\<not> allowed qc"
  shows "\<exists>why. reason qc = Some why"
proof (cases "checkQuota_try w now uid f")
  case (Inl e)
  with assms show ?thesis by (auto simp: fst_checkQuota deny_def)
next
  case (Inr r)
  from checkQuota_try_cases [OF Inr] assms show ?thesis
    by (auto simp: fst_checkQuota Inr deny_def split: if_splits)
qed

lemma script_denied:
  assumes "fst (checkQuota w (checked_at ev) (userId req) ''script'') = Inr qc" and "\<not> allowed qc"
  shows "generate_script src ev req w =
     \<lparr>settled = Inr (), sent = Some (entitlement_denied qc),
      after = snd (checkQuota w (checked_at ev) (userId req) ''script'')\<rparr>"
  using assms
  by (cases "checkQuota w (checked_at ev) (userId req) ''script''")
     (simp add: generate_script_def generate_script_try_def)

lemma hooks_denied:
  assumes "fst (checkQuota w (checked_at ev) (userId req) ''hooks'') = Inr qc" and "\<not> allowed qc"
  shows "generate_hooks src ev req w =
     \<lparr>settled = Inr (), sent = Some (entitlement_denied qc),
      after = snd (checkQuota w (checked_at ev) (userId req) ''hooks'')\<rparr>"
  using assms
  by (cases "checkQuota w (checked_at ev) (userId req) ''hooks''")
     (simp add: generate_hooks_def generate_hooks_try_def)

lemma titles_denied:
  assumes "fst (checkQuota w (checked_at ev) (userId req) ''titles'') = Inr qc" and "\<not> allowed qc"
  shows "generate_titles src ev req w =
     \<lparr>settled = Inr (), sent = Some (entitlement_denied qc),
      after = snd (checkQuota w (checked_at ev) (userId req) ''titles'')\<rparr>"
  using assms
  by (cases "checkQuota w (checked_at ev) (userId req) ''titles''")
     (simp add: generate_titles_def generate_titles_try_def)

text \<open>
  C4. When the quota evaluation of a generation request returns \<open>allowed = false\<close>, the
  handler (script, hooks or titles) answers 429 with the evaluator's reason and does
  nothing else: the remote generation API is not called and the usage log is unchanged.
\<close>

theorem quota_denial_stops_request:
  "(fst (checkQuota w (checked_at ev) (userId req) ''script'') = Inr qc \<and> \<not> allowed qc
      \<longrightarrow> (\<exists>why. reason qc = Some why \<and> stopped_at_denial why w (generate_script src ev req w)))
   \<and> (fst (checkQuota w (checked_at ev) (userId req) ''hooks'') = Inr qc \<and> \<not> allowed qc
      \<longrightarrow> (\<exists>why. reason qc = Some why \<and> stopped_at_denial why w (generate_hooks src ev req w)))
   \<and> (fst (checkQuota w (checked_at ev) (userId req) ''titles'') = Inr qc \<and> \<not> allowed qc
      \<longrightarrow> (\<exists>why. reason qc = Some why \<and> stopped_at_denial why w (generate_titles src ev req w)))"
proof (intro conjI impI)
  assume a: "fst (checkQuota w (checked_at ev) (userId req) ''script'') = Inr qc \<and> \<not> allowed qc"
  then obtain why where "reason qc = Some why"
    using denied_has_reason by blast
  with a show "\<exists>why. reason qc = Some why \<and> stopped_at_denial why w (generate_script src ev req w)"
    by (simp add: stopped_at_denial_def script_denied checkQuota_keeps entitlement_denied_def
          reason_value_def)
next
  assume a: "fst (checkQuota w (checked_at ev) (userId req) ''hooks'') = Inr qc \<and> \<not> allowed qc"
  then obtain why where "reason qc = Some why"
    using denied_has_reason by blast
  with a show "\<exists>why. reason qc = Some why \<and> stopped_at_denial why w (generate_hooks src ev req w)"
    by (simp add: stopped_at_denial_def hooks_denied checkQuota_keeps entitlement_denied_def
          reason_value_def)
next
  assume a: "fst (checkQuota w (checked_at ev) (userId req) ''titles'') = Inr qc \<and> \<not> allowed qc"
  then obtain why where "reason qc = Some why"
    using denied_has_reason by blast
  with a show "\<exists>why. reason qc = Some why \<and> stopped_at_denial why w (generate_titles src ev req w)"
    by (simp add: stopped_at_denial_def titles_denied checkQuota_keeps entitlement_denied_def
          reason_value_def)
qed

lemma basic_hooks_denied:
  "checkQuota (example_world []) (Timestamp 3 50) 3 ''hooks''
     = (Inr \<lparr>allowed = False, currentUsage = None, limit = None,
             reason = Some ''Feature not available in your plan''\<rparr>, example_world [])"
  by (simp add: example_defs checkQuota_defs)

theorem quota_denial_stops_request_witness:
  "(fst (checkQuota five_used (checked_at (example_env script_text)) (userId example_request) ''script'')
      = Inr \<lparr>allowed = False, currentUsage = Some 5, limit = Some 5,
              reason = Some ''Monthly limit of 5 reached''\<rparr>
    \<and> sent (generate_script ServerFile (example_env script_text) example_request five_used)
      = Some (Response 429 (JObj [(''error'', JStr ''Monthly limit of 5 reached'')]))
    \<and> usage_logs (after (generate_script ServerFile (example_env script_text) example_request five_used))
      = usage_logs five_used
    \<and> remote_calls (after (generate_script ServerFile (example_env script_text) example_request five_used))
      = [])
   \<and> (fst (checkQuota (example_world []) (checked_at (example_env fenced_array))
              (userId (example_request\<lparr>userId := 3\<rparr>)) ''hooks'')
      = Inr \<lparr>allowed = False, currentUsage = None, limit = None,
              reason = Some ''Feature not available in your plan''\<rparr>
    \<and> sent (generate_hooks ServerFile (example_env fenced_array) (example_request\<lparr>userId := 3\<rparr>)
              (example_world []))
      = Some (Response 429 (JObj [(''error'', JStr ''Feature not available in your plan'')]))
    \<and> usage_logs (after (generate_hooks ServerFile (example_env fenced_array)
              (example_request\<lparr>userId := 3\<rparr>) (example_world []))) = []
    \<and> remote_calls (after (generate_hooks ServerFile (example_env fenced_array)
              (example_request\<lparr>userId := 3\<rparr>) (example_world []))) = [])"
proof -
  have c: "fst (checkQuota five_used (checked_at (example_env script_text)) (userId example_request) ''script'')
      = Inr \<lparr>allowed = False, currentUsage = Some 5, limit = Some 5,
              reason = Some ''Monthly limit of 5 reached''\<rparr>"
    using five_used_denied limit_reached_5 by (simp add: example_env_def example_request_def)
  have r: "remote_calls five_used = []"
    by (simp add: five_used_def example_world_def)
  have d: "fst (checkQuota (example_world []) (checked_at (example_env fenced_array))
              (userId (example_request\<lparr>userId := 3\<rparr>)) ''hooks'')
      = Inr \<lparr>allowed = False, currentUsage = None, limit = None,
              reason = Some ''Feature not available in your plan''\<rparr>"
    using basic_hooks_denied by (simp add: example_env_def)
  have e: "usage_logs (example_world []) = []" "remote_calls (example_world []) = []"
    by (simp_all add: example_world_def)
  from quota_denial_stops_request [where w = five_used and ev = "example_env script_text"
      and req = example_request and src = ServerFile
      and qc = "\<lparr>allowed = False, currentUsage = Some 5, limit = Some 5,
              reason = Some ''Monthly limit of 5 reached''\<rparr>"]
    quota_denial_stops_request [where w = "example_world []" and ev = "example_env fenced_array"
      and req = "example_request\<lparr>userId := 3\<rparr>" and src = ServerFile
      and qc = "\<lparr>allowed = False, currentUsage = None, limit = None,
              reason = Some ''Feature not available in your plan''\<rparr>"]
    c r d e
  show ?thesis
    by (simp add: stopped_at_denial_def)
qed

lemma hooks_try_fst_cong:
  assumes "fst (checkQuota w (checked_at ev) (userId req) ''hooks'')
         = fst (checkQuota w' (checked_at ev) (userId req) ''hooks'')"
  shows "fst (generate_hooks_try src ev req w) = fst (generate_hooks_try src ev req w')"
proof -
  obtain r w1 where a: "checkQuota w (checked_at ev) (userId req) ''hooks'' = (r, w1)"
    by (cases "checkQuota w (checked_at ev) (userId req) ''hooks''")
  obtain r' w1' where b: "checkQuota w' (checked_at ev) (userId req) ''hooks'' = (r', w1')"
    by (cases "checkQuota w' (checked_at ev) (userId req) ''hooks''")
  from assms a b have r: "r' = r" by simp
  show ?thesis
    unfolding generate_hooks_try_def Let_def a b r
    by (simp add: logUsage_resolves split_beta split: sum.split fetch_result.split)
qed

lemma titles_try_fst_cong:
  assumes "fst (checkQuota w (checked_at ev) (userId req) ''titles'')
         = fst (checkQuota w' (checked_at ev) (userId req) ''titles'')"
  shows "fst (generate_titles_try src ev req w) = fst (generate_titles_try src ev req w')"
proof -
  obtain r w1 where a: "checkQuota w (checked_at ev) (userId req) ''titles'' = (r, w1)"
    by (cases "checkQuota w (checked_at ev) (userId req) ''titles''")
  obtain r' w1' where b: "checkQuota w' (checked_at ev) (userId req) ''titles'' = (r', w1')"
    by (cases "checkQuota w' (checked_at ev) (userId req) ''titles''")
  from assms a b have r: "r' = r" by simp
  show ?thesis
    unfolding generate_titles_try_def Let_def a b r
    by (simp add: logUsage_resolves split_beta split: sum.split fetch_result.split)
qed

text \<open>
  What a handler leaves behind when its \<open>try\<close> block throws: the \<open>catch\<close> block logs the
  error and then throws itself, at the object literal in the arguments of \<open>logUsage\<close>.
\<close>

lemma script_run:
  "generate_script src ev req w =
     (case generate_script_try src ev req w of
        (Inr resp, w') \<Rightarrow> \<lparr>settled = Inr (), sent = Some resp, after = w'\<rparr>
      | (Inl e, w') \<Rightarrow>
          \<lparr>settled = Inl (ReferenceError ''topic is not defined''), sent = None,
           after = console_error ''Script generation error:'' w'\<rparr>)"
  by (simp add: generate_script_def catch_block_def catch_script split: prod.split sum.split)

lemma hooks_run:
  "generate_hooks src ev req w =
     (case generate_hooks_try src ev req w of
        (Inr resp, w') \<Rightarrow> \<lparr>settled = Inr (), sent = Some resp, after = w'\<rparr>
      | (Inl e, w') \<Rightarrow>
          \<lparr>settled = Inl (ReferenceError ''topic is not defined''), sent = None,
           after = console_error ''Hooks generation error:'' w'\<rparr>)"
  by (simp add: generate_hooks_def catch_block_def catch_hooks split: prod.split sum.split)

lemma titles_run:
  "generate_titles src ev req w =
     (case generate_titles_try src ev req w of
        (Inr resp, w') \<Rightarrow> \<lparr>settled = Inr (), sent = Some resp, after = w'\<rparr>
      | (Inl e, w') \<Rightarrow>
          \<lparr>settled = Inl (ReferenceError ''topic is not defined''), sent = None,
           after = console_error ''Titles generation error:'' w'\<rparr>)"
  by (simp add: generate_titles_def catch_block_def catch_titles split: prod.split sum.split)

lemma sent_by_try:
  "sent (generate_script src ev req w) =
     (case fst (generate_script_try src ev req w) of Inr resp \<Rightarrow> Some resp | Inl e \<Rightarrow> None)"
  "sent (generate_hooks src ev req w) =
     (case fst (generate_hooks_try src ev req w) of Inr resp \<Rightarrow> Some resp | Inl e \<Rightarrow> None)"
  "sent (generate_titles src ev req w) =
     (case fst (generate_titles_try src ev req w) of Inr resp \<Rightarrow> Some resp | Inl e \<Rightarrow> None)"
  by (simp_all add: script_run hooks_run titles_run split: prod.split sum.split)

lemma queries_ignore_insert_fault:
  "select_user_access_level (w\<lparr>fault := (fault w)(InsertUsageLog := x)\<rparr>) uid
     = select_user_access_level w uid"
  "select_usage_quota (w\<lparr>fault := (fault w)(InsertUsageLog := x)\<rparr>) lvl
     = select_usage_quota w lvl"
  "count_usage_logs (w\<lparr>fault := (fault w)(InsertUsageLog := x)\<rparr>) now uid f
     = count_usage_logs w now uid f"
  by (simp_all add: query_defs split: option.split)

lemma checkQuota_ignores_insert_fault:
  "fst (checkQuota (w\<lparr>fault := (fault w)(InsertUsageLog := x)\<rparr>) now uid f)
     = fst (checkQuota w now uid f)"
  by (simp add: fst_checkQuota checkQuota_try_def queries_ignore_insert_fault
        cong: sum.case_cong list.case_cong if_cong)

text \<open>
  C5. \<open>logUsage\<close> never throws: its promise resolves for every argument list and every
  state of the store. When the insert is rejected, the error goes to the console and the
  usage log stays as it is. The response of a generation handler is the same whether or
  not the store accepts the insert.
\<close>

theorem logUsage_never_throws:
  "fst (logUsage w now args) = Inr ()
   \<and> (fault w InsertUsageLog = Some m
        \<longrightarrow> snd (logUsage w now args) = console_error ''Usage logging error:'' w)
   \<and> sent (generate_script src ev req (w\<lparr>fault := (fault w)(InsertUsageLog := x)\<rparr>))
        = sent (generate_script src ev req w)
   \<and> sent (generate_hooks src ev req (w\<lparr>fault := (fault w)(InsertUsageLog := x)\<rparr>))
        = sent (generate_hooks src ev req w)
   \<and> sent (generate_titles src ev req (w\<lparr>fault := (fault w)(InsertUsageLog := x)\<rparr>))
        = sent (generate_titles src ev req w)"
proof (intro conjI impI)
  show "fst (logUsage w now args) = Inr ()"
    by (rule logUsage_resolves)
next
  assume "fault w InsertUsageLog = Some m"
  then show "snd (logUsage w now args) = console_error ''Usage logging error:'' w"
    by (simp add: logUsage_def insert_usage_log_def Let_def)
next
  show "sent (generate_script src ev req (w\<lparr>fault := (fault w)(InsertUsageLog := x)\<rparr>))
        = sent (generate_script src ev req w)"
    by (simp add: sent_by_try script_try_fst_cong [OF checkQuota_ignores_insert_fault])
next
  show "sent (generate_hooks src ev req (w\<lparr>fault := (fault w)(InsertUsageLog := x)\<rparr>))
        = sent (generate_hooks src ev req w)"
    by (simp add: sent_by_try hooks_try_fst_cong [OF checkQuota_ignores_insert_fault])
next
  show "sent (generate_titles src ev req (w\<lparr>fault := (fault w)(InsertUsageLog := x)\<rparr>))
        = sent (generate_titles src ev req w)"
    by (simp add: sent_by_try titles_try_fst_cong [OF checkQuota_ignores_insert_fault])
qed

theorem logUsage_never_throws_witness:
  "fault ((example_world [])\<lparr>fault := [InsertUsageLog \<mapsto> ''disk full'']\<rparr>) InsertUsageLog
      = Some ''disk full''
   \<and> logUsage ((example_world [])\<lparr>fault := [InsertUsageLog \<mapsto> ''disk full'']\<rparr>) (Timestamp 3 51)
        [JNum 1, JStr ''script'', JBool True, JNum 500, JNum 3, JNull, JObj []]
      = (Inr (), (example_world [])\<lparr>fault := [InsertUsageLog \<mapsto> ''disk full''],
                                    console := [''Usage logging error:'']\<rparr>)"
  using logUsage_never_throws [where w = "(example_world [])\<lparr>fault := [InsertUsageLog \<mapsto> ''disk full'']\<rparr>"
      and m = "''disk full''" and now = "Timestamp 3 51"
      and args = "[JNum 1, JStr ''script'', JBool True, JNum 500, JNum 3, JNull, JObj []]"]
  by (simp add: prod_eq_iff console_error_def example_world_def)


lemmas handler_defs = example_env_def example_request_def getVoicePrompt_def
  compose_script_prompt_def script_params_def script_logged_def hooks_params_def hooks_logged_def
  titles_params_def property_def truthy_def call_api_def handler_scope_def module_scope_def
  content_text_def as_string_def entitlement_denied_def reason_value_def log_args_def
  logUsage_def insert_usage_log_def param_def parse_structured_def

lemma example_allowed:
  "checkQuota (example_world []) (Timestamp 3 50) 1 f =
     (if f = ''script'' then (Inr \<lparr>allowed = True, currentUsage = Some 0, limit = Some 5, reason = None\<rparr>, example_world [])
      else if f = ''hooks'' then (Inr \<lparr>allowed = True, currentUsage = Some 0, limit = Some 10, reason = None\<rparr>, example_world [])
      else if f = ''titles'' then (Inr \<lparr>allowed = True, currentUsage = Some 0, limit = Some 20, reason = None\<rparr>, example_world [])
      else checkQuota (example_world []) (Timestamp 3 50) 1 f)"
  by (simp add: example_defs checkQuota_defs)

lemma failed_script_try:
  "generate_script_try ServerFile (example_env api_overloaded) example_request (example_world [])
     = (Inl (Error (''API request failed: '' @ show_nat 529)),
        (example_world [])\<lparr>remote_calls := [2000]\<rparr>)"
  apply (simp add: generate_script_try_def)
  apply (simp add: handler_defs example_allowed api_overloaded_def)
  apply (simp add: example_world_def)
  done


lemma getVoicePrompt_keeps:
  "usage_logs (snd (getVoicePrompt w v)) = usage_logs w"
  "remote_calls (snd (getVoicePrompt w v)) = remote_calls w"
  by (simp_all add: getVoicePrompt_def console_error_def split: option.split jsval.split)

text \<open>When the \<open>try\<close> block of a handler throws, it has appended no usage record.\<close>

lemma script_try_throws:
  assumes "generate_script_try src ev req w = (Inl e, w')"
  shows "usage_logs w' = usage_logs w"
proof -
  obtain r w1 where a: "checkQuota w (checked_at ev) (userId req) ''script'' = (r, w1)"
    by (cases "checkQuota w (checked_at ev) (userId req) ''script''")
  have k: "usage_logs w1 = usage_logs w"
    using checkQuota_keeps(1) [of w "checked_at ev" "userId req" "''script''"] a by simp
  from assms k show ?thesis
    unfolding generate_script_try_def Let_def a
    by (auto simp: logUsage_resolves split_beta getVoicePrompt_keeps call_api_def
          split: sum.splits fetch_result.splits if_splits)
qed

lemma hooks_try_throws:
  assumes "generate_hooks_try src ev req w = (Inl e, w')"
  shows "usage_logs w' = usage_logs w"
proof -
  obtain r w1 where a: "checkQuota w (checked_at ev) (userId req) ''hooks'' = (r, w1)"
    by (cases "checkQuota w (checked_at ev) (userId req) ''hooks''")
  have k: "usage_logs w1 = usage_logs w"
    using checkQuota_keeps(1) [of w "checked_at ev" "userId req" "''hooks''"] a by simp
  from assms k show ?thesis
    unfolding generate_hooks_try_def Let_def a
    by (auto simp: logUsage_resolves split_beta getVoicePrompt_keeps call_api_def
          split: sum.splits fetch_result.splits if_splits)
qed

lemma titles_try_throws:
  assumes "generate_titles_try src ev req w = (Inl e, w')"
  shows "usage_logs w' = usage_logs w"
proof -
  obtain r w1 where a: "checkQuota w (checked_at ev) (userId req) ''titles'' = (r, w1)"
    by (cases "checkQuota w (checked_at ev) (userId req) ''titles''")
  have k: "usage_logs w1 = usage_logs w"
    using checkQuota_keeps(1) [of w "checked_at ev" "userId req" "''titles''"] a by simp
  from assms k show ?thesis
    unfolding generate_titles_try_def Let_def a
    by (auto simp: logUsage_resolves split_beta call_api_def
          split: sum.splits fetch_result.splits if_splits)
qed

text \<open>
  So in every handler a failed attempt ends with the promise rejected, no response and
  an unchanged usage log.
\<close>

lemma failed_attempt_lost:
  "fst (generate_script_try src ev req w) = Inl e \<Longrightarrow>
     settled (generate_script src ev req w) = Inl (ReferenceError ''topic is not defined'')
     \<and> sent (generate_script src ev req w) = None
     \<and> usage_logs (after (generate_script src ev req w)) = usage_logs w"
  "fst (generate_hooks_try src ev req w) = Inl e \<Longrightarrow>
     settled (generate_hooks src ev req w) = Inl (ReferenceError ''topic is not defined'')
     \<and> sent (generate_hooks src ev req w) = None
     \<and> usage_logs (after (generate_hooks src ev req w)) = usage_logs w"
  "fst (generate_titles_try src ev req w) = Inl e \<Longrightarrow>
     settled (generate_titles src ev req w) = Inl (ReferenceError ''topic is not defined'')
     \<and> sent (generate_titles src ev req w) = None
     \<and> usage_logs (after (generate_titles src ev req w)) = usage_logs w"
proof -
  show "fst (generate_script_try src ev req w) = Inl e \<Longrightarrow>
     settled (generate_script src ev req w) = Inl (ReferenceError ''topic is not defined'')
     \<and> sent (generate_script src ev req w) = None
     \<and> usage_logs (after (generate_script src ev req w)) = usage_logs w"
    using script_try_throws [of src ev req w e]
    by (cases "generate_script_try src ev req w") (simp add: script_run console_error_def)
  show "fst (generate_hooks_try src ev req w) = Inl e \<Longrightarrow>
     settled (generate_hooks src ev req w) = Inl (ReferenceError ''topic is not defined'')
     \<and> sent (generate_hooks src ev req w) = None
     \<and> usage_logs (after (generate_hooks src ev req w)) = usage_logs w"
    using hooks_try_throws [of src ev req w e]
    by (cases "generate_hooks_try src ev req w") (simp add: hooks_run console_error_def)
  show "fst (generate_titles_try src ev req w) = Inl e \<Longrightarrow>
     settled (generate_titles src ev req w) = Inl (ReferenceError ''topic is not defined'')
     \<and> sent (generate_titles src ev req w) = None
     \<and> usage_logs (after (generate_titles src ev req w)) = usage_logs w"
    using titles_try_throws [of src ev req w e]
    by (cases "generate_titles_try src ev req w") (simp add: titles_run console_error_def)
qed

text \<open>
  C6. A script request (user 1, under quota) for which the remote API answers with status
  529: the call is made, the \<open>try\<close> block throws, and the \<open>catch\<close> block throws a
  ReferenceError while building the arguments of \<open>logUsage\<close>. No usage record is
  appended and no response is sent, where the claim has one record with
  \<open>success = false\<close> and the error message.
\<close>

theorem failed_generation_not_recorded:
  "settled (generate_script ServerFile (example_env api_overloaded) example_request (example_world []))
      = Inl (ReferenceError ''topic is not defined'')
   \<and> sent (generate_script ServerFile (example_env api_overloaded) example_request (example_world []))
      = None
   \<and> usage_logs (after (generate_script ServerFile (example_env api_overloaded) example_request
        (example_world []))) = []
   \<and> remote_calls (after (generate_script ServerFile (example_env api_overloaded) example_request
        (example_world []))) = [2000]"
  by (simp add: script_run failed_script_try console_error_def) (simp add: example_world_def)

text \<open>On a successful attempt exactly one record is appended, if the store takes the insert.\<close>

lemma script_success_record:
  "usage_logs (after (generate_script ServerFile (example_env script_text) example_request
      (example_world [])))
     = [\<lparr>user_id = JNum 1, feature_type = JStr ''script'', success = JBool True,
         processing_time_ms = JNum 500, tokens_used = JNum 3, error_message = JNull,
         metadata = JObj [(''topic'', JStr ''sourdough''), (''audience'', JStr ''beginners''),
                          (''duration'', JStr ''5-7''), (''tone'', JStr ''casual''),
                          (''videoType'', JStr ''tutorial''),
                          (''voicePreset'', JStr ''conversational'')],
         created_at = Timestamp 3 51\<rparr>]"
  apply (simp add: script_run generate_script_try_def)
  apply (simp add: handler_defs example_allowed script_text_def)
  apply (simp add: example_world_def trim_def is_space_def split_ws_length_def)
  done

text \<open>
  In the routes file the parameter object is the ninth argument of \<open>logUsage\<close>, which has
  seven parameters: the record's metadata is null.
\<close>

lemma routes_file_metadata_null:
  "map metadata (usage_logs (after (generate_script RoutesFile (example_env script_text)
      example_request (example_world [])))) = [JNull]"
  apply (simp add: script_run generate_script_try_def)
  apply (simp add: handler_defs example_allowed script_text_def)
  apply (simp add: example_world_def Let_def)
  done

section \<open>Structured answers\<close>

lemma fence_chars:
  "fence = [CHR 0x60, CHR 0x60, CHR 0x60]"
  "fence_json = [CHR 0x60, CHR 0x60, CHR 0x60, CHR ''j'', CHR ''s'', CHR ''o'', CHR ''n'']"
  by (simp_all add: fence_def fence_json_def numeral_3_eq_3)

lemma remove_marker_append:
  assumes "m \<noteq> []" and "hd m \<notin> set s"
  shows "remove_marker m (s @ t) = s @ remove_marker m t"
  using assms
proof (induction s)
  case Nil
  then show ?case by simp
next
  case (Cons c cs)
  from Cons.prems have "take (length m) (c # cs @ t) \<noteq> m"
    by (cases m) auto
  with Cons show ?case by simp
qed

text \<open>
  A text without backticks, wrapped in a \<open>```json\<close> line and a closing \<open>```\<close> line, comes
  out of the two replacements as the text itself with the newline that preceded the
  closing fence.
\<close>

lemma strip_fences_fenced:
  assumes "CHR 0x60 \<notin> set t"
  shows "strip_fences (fence_json @ [CHR 0x0A] @ t @ [CHR 0x0A] @ fence) = t @ [CHR 0x0A]"
proof -
  have a: "remove_marker fence_json (fence_json @ [CHR 0x0A] @ t @ [CHR 0x0A] @ fence)
           = remove_marker fence_json (t @ [CHR 0x0A] @ fence)"
    by (simp add: fence_chars drop_newline_def)
  have b: "remove_marker fence_json (t @ [CHR 0x0A] @ fence) = t @ [CHR 0x0A] @ fence"
    using assms remove_marker_append [of fence_json t "[CHR 0x0A] @ fence"]
    by (simp add: fence_chars)
  have c: "remove_marker fence (t @ [CHR 0x0A] @ fence) = t @ [CHR 0x0A]"
    using assms remove_marker_append [of fence t "[CHR 0x0A] @ fence"]
    by (simp add: fence_chars drop_newline_def)
  show ?thesis
    unfolding strip_fences_def a b c ..
qed

lemma trim_examples:
  "trim ''Here are your hooks'' = ''Here are your hooks''"
  "trim (''[1, 2]'' @ [CHR 0x0A]) = ''[1, 2]''"
  "trim fenced_text = fenced_text"
  by (simp_all add: trim_def is_space_def fence_chars fenced_text_def)

lemma prose_hooks_try:
  "generate_hooks_try ServerFile (example_env prose) example_request (example_world [])
     = (Inl (SyntaxError ''Unexpected token in JSON at position 0''),
        (example_world [])\<lparr>remote_calls := [1000]\<rparr>)"
  apply (simp add: generate_hooks_try_def)
  apply (simp add: handler_defs example_allowed prose_def trim_examples)
  apply (simp add: example_world_def example_parse_def strip_fences_def fence_chars trim_examples)
  done

text \<open>The fenced answer is parsed and returned.\<close>

lemma fenced_hooks_parsed:
  "sent (generate_hooks ServerFile (example_env fenced_array) example_request (example_world []))
     = Some (Response 200 (JObj [(''hooks'', JArr [JNum 1, JNum 2])]))"
proof -
  have s: "strip_fences fenced_text = ''[1, 2]'' @ [CHR 0x0A]"
    unfolding fenced_text_def by (rule strip_fences_fenced) simp
  have "fst (generate_hooks_try ServerFile (example_env fenced_array) example_request (example_world []))
     = Inr (Response 200 (JObj [(''hooks'', JArr [JNum 1, JNum 2])]))"
    apply (simp add: generate_hooks_try_def)
    apply (simp add: handler_defs example_allowed fenced_array_def trim_examples s)
    apply (simp add: example_parse_def trim_examples [simplified])
    apply (simp add: handler_defs example_world_def)
    done
  then show ?thesis by (simp add: sent_by_try)
qed

text \<open>
  The record of that attempt has processing time 0, whatever time the request took, and
  its metadata lacks the \<open>voicePreset\<close> the caller supplied.
\<close>

lemma fenced_hooks_record:
  "usage_logs (after (generate_hooks ServerFile (example_env fenced_array) example_request
      (example_world [])))
     = [\<lparr>user_id = JNum 1, feature_type = JStr ''hooks'', success = JBool True,
         processing_time_ms = JNum 0, tokens_used = JNum 0, error_message = JNull,
         metadata = JObj [(''topic'', JStr ''sourdough''), (''audience'', JStr ''beginners''),
                          (''videoType'', JStr ''tutorial''), (''tone'', JStr ''casual'')],
         created_at = Timestamp 3 51\<rparr>]"
proof -
  have s: "strip_fences fenced_text = ''[1, 2]'' @ [CHR 0x0A]"
    unfolding fenced_text_def by (rule strip_fences_fenced) simp
  show ?thesis
    apply (simp add: hooks_run generate_hooks_try_def)
    apply (simp add: handler_defs example_allowed fenced_array_def trim_examples s)
    apply (simp add: example_parse_def trim_examples [simplified])
    apply (simp add: handler_defs example_world_def)
    done
qed

text \<open>
  C9. A hooks request (user 1, under quota) for which the remote API answers with prose
  instead of JSON: \<open>JSON.parse\<close> throws, and the \<open>catch\<close> block throws a ReferenceError
  while building the arguments of \<open>logUsage\<close>. No usage record is appended and no
  response is sent, where the claim has a record with \<open>success = false\<close> and a generic
  failure for the caller.
\<close>

theorem unparsable_hooks_not_recorded:
  "settled (generate_hooks ServerFile (example_env prose) example_request (example_world []))
      = Inl (ReferenceError ''topic is not defined'')
   \<and> sent (generate_hooks ServerFile (example_env prose) example_request (example_world []))
      = None
   \<and> usage_logs (after (generate_hooks ServerFile (example_env prose) example_request
        (example_world []))) = []
   \<and> remote_calls (after (generate_hooks ServerFile (example_env prose) example_request
        (example_world []))) = [1000]"
  by (simp add: hooks_run prose_hooks_try console_error_def) (simp add: example_world_def)

section \<open>Seeding\<close>

lemma seed_apply:
  "seed_usage_quotas tbl k =
     (case map_of seed_values k of
        None \<Rightarrow> tbl k
      | Some s \<Rightarrow>
          (case tbl k of
             None \<Rightarrow> Some s
           | Some old \<Rightarrow> Some (old\<lparr>monthly_script_limit := monthly_script_limit s\<rparr>)))"
  by (simp add: seed_usage_quotas_def seed_values_def upsert_quota_def split: option.split)

lemma seed_idem: "seed_usage_quotas (seed_usage_quotas tbl) = seed_usage_quotas tbl"
  by (rule ext) (simp add: seed_apply split: option.split)

text \<open>
  C8, as stated, fails: seeding a table in which an operator raised the script limit of
  "free" to 100 puts it back to 5.
\<close>

theorem seeding_lowers_tuned_limit:
  "tuned_quotas ''free'' = Some (seed_row 100 10 20 5 5 10 10 10)
   \<and> seed_usage_quotas tuned_quotas ''free'' = Some (seed_row 5 10 20 5 5 10 10 10)
   \<and> monthly_script_limit (seed_row 5 10 20 5 5 10 10 10)
       < monthly_script_limit (seed_row 100 10 20 5 5 10 10 10)"
  by (simp add: seed_apply tuned_quotas_def seed_values_def seed_row_def)

text \<open>
  C8, amended. Seeding is idempotent: seeding twice gives the rows that seeding once
  gives, also through \<open>initDB\<close>. An existing row of a seeded tier gets the seed's script
  limit and keeps every other column; an existing row of another tier is untouched; a
  seeded tier without row gets the seed row.
\<close>

theorem seeding_idempotent_resets_script_limit:
  "seed_usage_quotas (seed_usage_quotas tbl) = seed_usage_quotas tbl
   \<and> usage_quotas (initDB (initDB w)) = usage_quotas (initDB w)
   \<and> (tbl k = Some old \<and> map_of seed_values k = Some s
        \<longrightarrow> seed_usage_quotas tbl k = Some (old\<lparr>monthly_script_limit := monthly_script_limit s\<rparr>))
   \<and> (tbl k = Some old \<and> map_of seed_values k = None \<longrightarrow> seed_usage_quotas tbl k = Some old)
   \<and> (tbl k = None \<longrightarrow> seed_usage_quotas tbl k = map_of seed_values k)"
  by (auto simp: seed_idem seed_apply initDB_def console_error_def split: option.split)

theorem seeding_idempotent_resets_script_limit_witness:
  "tuned_quotas ''free'' = Some (seed_row 100 10 20 5 5 10 10 10)
   \<and> map_of seed_values ''free'' = Some (seed_row 5 10 20 5 5 10 10 10)
   \<and> seed_usage_quotas tuned_quotas ''free'' = Some (seed_row 5 10 20 5 5 10 10 10)
   \<and> tuned_quotas ''staff'' = Some (seed_row 1000 1000 1000 1000 1000 1000 1000 1000)
   \<and> map_of seed_values ''staff'' = None
   \<and> seed_usage_quotas tuned_quotas ''staff'' = Some (seed_row 1000 1000 1000 1000 1000 1000 1000 1000)
   \<and> tuned_quotas ''pro'' = None
   \<and> seed_usage_quotas tuned_quotas ''pro'' = Some (seed_row 200 400 800 200 200 400 400 400)"
  using seeding_idempotent_resets_script_limit [where tbl = tuned_quotas and k = "''free''"
      and old = "seed_row 100 10 20 5 5 10 10 10" and s = "seed_row 5 10 20 5 5 10 10 10"]
    seeding_idempotent_resets_script_limit [where tbl = tuned_quotas and k = "''staff''"
      and old = "seed_row 1000 1000 1000 1000 1000 1000 1000 1000"]
    seeding_idempotent_resets_script_limit [where tbl = tuned_quotas and k = "''pro''"]
  by (simp add: tuned_quotas_def seed_values_def seed_row_def)

section \<open>Rate limiting\<close>

lemma admit_save: "admit (save_request i) cs = (None, cs)"
  by (simp add: admit_def routes_def save_request_def authenticate_def)

lemma serve_save: "serve (map save_request is) cs = map (\<lambda>i. None) is"
  by (induction "is" arbitrary: cs) (simp_all add: admit_save)

text \<open>On a generation route the eleventh request within a minute is turned away.\<close>

lemma eleventh_generation_rejected:
  "serve (map script_post [0..<11]) no_counts ! 10
     = Some (Response 429 (JObj [(''error'', JStr ''Generation rate limit exceeded'')]))"
  by (simp add: upt_rec nth_Cons' admit_def routes_def script_post_def authenticate_def
        rate_limit_def no_counts_def Let_def)

text \<open>A request that the middleware turned away reaches neither handler nor world.\<close>

lemma rejected_before_handler:
  assumes "fst (admit rq cs) = Some r"
  shows "fst (post_generate handler ev rq params w cs)
           = \<lparr>settled = Inr (), sent = Some r, after = w\<rparr>"
  using assms by (cases "admit rq cs") (simp add: post_generate_def)

text \<open>
  C7. The route POST /api/scripts/save is registered with \<open>authenticateToken\<close> alone. An
  authenticated client that sends it 31 requests within 31 seconds has every one of them
  admitted to the handler, where the claim has the 31st rejected by the General API scope.
\<close>

theorem save_route_not_rate_limited:
  "map_of routes (POST, ''/api/scripts/save'') = Some [authenticateToken]
   \<and> serve (map save_request [0..<31]) no_counts = replicate 31 None"
  by (simp add: serve_save map_replicate_const routes_def)

end
